theory Spec2Isabelle
  imports Complex_Main
begin

section \<open>JavaScript values used by the flows\<close>

text \<open>
  A thrown JavaScript exception is a value of type \<open>error\<close>; a function that may throw
  returns \<open>error + 'a\<close> with \<open>Inl\<close> for the exception.  \<open>Error\<close> carries the message of
  \<^verbatim>\<open>new Error(msg)\<close> (and stands for whatever a failed model call throws), \<open>TypeError\<close>
  is what the engine throws when a property of \<^verbatim>\<open>null\<close> is read or a non-function is
  called, \<open>ValidationError\<close> is what a flow defined with \<^verbatim>\<open>ai.defineFlow\<close> throws when the
  value it is about to return does not parse against its declared \<^verbatim>\<open>outputSchema\<close>.
  Numbers are \<open>real\<close>: the numbers of the flows come from JSON or from literals, so NaN
  does not occur and the only falsy number is \<open>0\<close>.
\<close>

datatype error = Error string | TypeError string | ValidationError string

text \<open>
  A property of an object under construction: never assigned (\<^verbatim>\<open>undefined\<close>), assigned
  \<^verbatim>\<open>null\<close>, or assigned an object.  An \<^verbatim>\<open>.optional()\<close> field of a zod schema admits the
  first and the last.  \<open>assigned_value\<close> is the object if there is one: both other cases
  are falsy.
\<close>

datatype 'a assigned = Unassigned | AssignedNull | Assigned 'a

fun assigned_value :: "'a assigned \<Rightarrow> 'a option" where
  "assigned_value (Assigned v) = Some v"
| "assigned_value Unassigned = None"
| "assigned_value AssignedNull = None"

text \<open>\<^verbatim>\<open>x || d\<close>: the default replaces an absent value and also a present falsy one.\<close>

definition js_or :: "('a \<Rightarrow> bool) \<Rightarrow> 'a option \<Rightarrow> 'a \<Rightarrow> 'a" where
  "js_or truthy x d = (case x of None \<Rightarrow> d | Some v \<Rightarrow> if truthy v then v else d)"

definition truthy_string :: "string \<Rightarrow> bool" where
  "truthy_string s = (s \<noteq> [])"

definition truthy_number :: "real \<Rightarrow> bool" where
  "truthy_number n = (n \<noteq> 0)"

definition truthy_boolean :: "bool \<Rightarrow> bool" where
  "truthy_boolean b = b"

definition truthy_object :: "'a \<Rightarrow> bool" where
  "truthy_object v = True"

text \<open>
  \<^verbatim>\<open>String.prototype.toLowerCase\<close> and \<^verbatim>\<open>String.prototype.trim\<close> are functions of the
  runtime and parameters of the code that calls them (fields of \<open>env\<close> below): on text
  outside ASCII they map letters and strip spaces that the bytes of a \<open>string\<close> do not
  show.  \<open>asciiLowerCase\<close> and \<open>asciiTrim\<close> are what they do on ASCII text; the sample
  environments use them.  \<open>toUpperCase\<close> is the upper-casing of ASCII letters; the chat
  interface applies it to the string \<open>critical\<close> only.
\<close>

definition toLowerChar :: "char \<Rightarrow> char" where
  "toLowerChar c =
     (case map_of (zip ''ABCDEFGHIJKLMNOPQRSTUVWXYZ'' ''abcdefghijklmnopqrstuvwxyz'') c of
        Some l \<Rightarrow> l
      | None \<Rightarrow> c)"

definition toUpperChar :: "char \<Rightarrow> char" where
  "toUpperChar c =
     (case map_of (zip ''abcdefghijklmnopqrstuvwxyz'' ''ABCDEFGHIJKLMNOPQRSTUVWXYZ'') c of
        Some u \<Rightarrow> u
      | None \<Rightarrow> c)"

definition asciiLowerCase :: "string \<Rightarrow> string" where
  "asciiLowerCase s = map toLowerChar s"

definition is_space :: "char \<Rightarrow> bool" where
  "is_space c = (c \<in> set [CHR '' '', CHR 0x09, CHR 0x0A, CHR 0x0B, CHR 0x0C, CHR 0x0D])"

definition asciiTrim :: "string \<Rightarrow> string" where
  "asciiTrim s = rev (dropWhile is_space (rev (dropWhile is_space s)))"

definition toUpperCase :: "string \<Rightarrow> string" where
  "toUpperCase s = map toUpperChar s"

text \<open>\<^verbatim>\<open>s.startsWith(k)\<close> and \<^verbatim>\<open>s.includes(k)\<close>: \<open>k\<close> occurs in \<open>s\<close> as a contiguous run.\<close>

fun startsWith :: "string \<Rightarrow> string \<Rightarrow> bool" where
  "startsWith s [] = True"
| "startsWith [] (k # ks) = False"
| "startsWith (c # cs) (k # ks) = (c = k \<and> startsWith cs ks)"

fun includes_str :: "string \<Rightarrow> string \<Rightarrow> bool" where
  "includes_str [] k = (k = [])"
| "includes_str (c # cs) k = (startsWith (c # cs) k \<or> includes_str cs k)"

text \<open>\<^verbatim>\<open>xs.join(sep)\<close> on an array of strings.\<close>

fun join :: "string \<Rightarrow> string list \<Rightarrow> string" where
  "join sep [] = []"
| "join sep [x] = x"
| "join sep (x # y # ys) = x @ sep @ join sep (y # ys)"

text \<open>\<^verbatim>\<open>xs.slice(-n)\<close>: the last \<open>n\<close> elements, all of them when there are fewer.\<close>

definition slice_last :: "nat \<Rightarrow> 'a list \<Rightarrow> 'a list" where
  "slice_last n xs = drop (length xs - n) xs"

text \<open>
  \<^verbatim>\<open>Array.from(new Set(xs))\<close>: a \<^verbatim>\<open>Set\<close> keeps insertion order and ignores the insertion
  of a member it already has, so the first occurrence of every element survives.
\<close>

fun set_add_all :: "'a list \<Rightarrow> 'a list \<Rightarrow> 'a list" where
  "set_add_all acc [] = acc"
| "set_add_all acc (x # xs) = set_add_all (if x \<in> set acc then acc else acc @ [x]) xs"

definition array_from_set :: "'a list \<Rightarrow> 'a list" where
  "array_from_set xs = set_add_all [] xs"

section \<open>The knowledge matcher (enhanced-context-management)\<close>

record KnowledgeEntry =
  topic :: string
  content :: string
  category :: string
  keywords_kb :: "string list"

definition therapeuticKnowledgeBase :: "KnowledgeEntry list" where
  "therapeuticKnowledgeBase =
    [\<lparr>topic = ''Active Listening'',
      content = ''Reflect back what you hear, validate emotions, ask open-ended questions, avoid judgment'',
      category = ''communication_techniques'',
      keywords_kb = [''listening'', ''validation'', ''empathy'', ''understanding'']\<rparr>,
     \<lparr>topic = ''Cognitive Behavioral Therapy'',
      content = ''Help identify thought patterns, challenge negative thinking, explore behavior-emotion connections'',
      category = ''therapeutic_approaches'',
      keywords_kb = [''thoughts'', ''thinking'', ''behavior'', ''patterns'', ''negative'']\<rparr>,
     \<lparr>topic = ''Mindfulness Techniques'',
      content = ''Guide breathing exercises, present-moment awareness, body scans, non-judgmental observation'',
      category = ''coping_strategies'',
      keywords_kb = [''mindfulness'', ''breathing'', ''present'', ''awareness'', ''meditation'']\<rparr>,
     \<lparr>topic = ''Crisis Intervention'',
      content = ''Assess safety, provide immediate support, connect to resources, create safety plan'',
      category = ''crisis_management'',
      keywords_kb = [''crisis'', ''safety'', ''emergency'', ''harm'', ''suicide'', ''danger'']\<rparr>,
     \<lparr>topic = ''Anxiety Management'',
      content = ''Teach grounding techniques, progressive muscle relaxation, exposure therapy principles'',
      category = ''anxiety_support'',
      keywords_kb = [''anxiety'', ''worry'', ''fear'', ''panic'', ''nervous'', ''stressed'']\<rparr>,
     \<lparr>topic = ''Depression Support'',
      content = ''Validate feelings, encourage small steps, behavioral activation, hope instillation'',
      category = ''depression_support'',
      keywords_kb = [''depression'', ''sad'', ''hopeless'', ''empty'', ''worthless'', ''tired'']\<rparr>,
     \<lparr>topic = ''Trauma-Informed Care'',
      content = ''Create safety, avoid re-traumatization, respect autonomy, build trust gradually'',
      category = ''trauma_support'',
      keywords_kb = [''trauma'', ''abuse'', ''ptsd'', ''flashbacks'', ''triggers'', ''safety'']\<rparr>,
     \<lparr>topic = ''Motivational Interviewing'',
      content = ''Explore ambivalence, enhance motivation, support self-efficacy, avoid confrontation'',
      category = ''change_facilitation'',
      keywords_kb = [''motivation'', ''change'', ''ambivalence'', ''goals'', ''commitment'']\<rparr>]"

text \<open>
  The object literal \<^verbatim>\<open>emotionKeywords\<close> of \<^verbatim>\<open>findRelevantKnowledge\<close>.  Reading
  \<^verbatim>\<open>emotionKeywords[label]\<close> finds the literal's own six properties and, for every other
  label, whatever the literal inherits from \<^verbatim>\<open>Object.prototype\<close>: a function (or, for
  \<^verbatim>\<open>__proto__\<close>, the prototype object itself), which is truthy and has no \<^verbatim>\<open>some\<close>
  method.  Any other label reads \<^verbatim>\<open>undefined\<close>.
\<close>

definition emotionKeywords :: "(string \<times> string list) list" where
  "emotionKeywords =
    [(''anxious'', [''anxiety'', ''worry'', ''fear'']),
     (''sad'', [''depression'', ''sad'', ''hopeless'']),
     (''angry'', [''anger'', ''frustration'', ''irritation'']),
     (''stressed'', [''stress'', ''overwhelm'', ''pressure'']),
     (''confused'', [''confusion'', ''uncertainty'', ''clarity'']),
     (''hopeful'', [''hope'', ''optimism'', ''positive''])]"

definition objectPrototypeMembers :: "string list" where
  "objectPrototypeMembers =
    [''constructor'', ''__defineGetter__'', ''__defineSetter__'', ''hasOwnProperty'',
     ''__lookupGetter__'', ''__lookupSetter__'', ''isPrototypeOf'', ''propertyIsEnumerable'',
     ''toString'', ''valueOf'', ''__proto__'', ''toLocaleString'']"

datatype property_read = Undefined | OwnKeys "string list" | InheritedMember

definition read_emotionKeywords :: "string \<Rightarrow> property_read" where
  "read_emotionKeywords label =
     (case map_of emotionKeywords label of
        Some ks \<Rightarrow> OwnKeys ks
      | None \<Rightarrow> if label \<in> set objectPrototypeMembers then InheritedMember else Undefined)"

text \<open>
  \<^verbatim>\<open>findRelevantKnowledge(message, emotionalContext)\<close>.  The first argument here is the
  runtime's \<^verbatim>\<open>toLowerCase\<close>; the last is the value of \<^verbatim>\<open>emotionalContext?.currentEmotion\<close>
  (\<open>None\<close> when the context or the label is absent).  The filter over the non-empty table
  calls \<^verbatim>\<open>emotionKeys.some\<close> on its first item, which throws when \<^verbatim>\<open>emotionKeys\<close> is an
  inherited member.
\<close>

definition message_matches :: "(string \<Rightarrow> string) \<Rightarrow> string \<Rightarrow> KnowledgeEntry list" where
  "message_matches toLowerCase message =
     (let messageLower = toLowerCase message
      in filter (\<lambda>item. list_ex (\<lambda>keyword. includes_str messageLower keyword) (keywords_kb item))
           therapeuticKnowledgeBase)"

definition emotion_matches :: "string list \<Rightarrow> KnowledgeEntry list" where
  "emotion_matches emotionKeys =
     filter (\<lambda>item. list_ex (\<lambda>key. key \<in> set (keywords_kb item)) emotionKeys)
       therapeuticKnowledgeBase"

definition findRelevantKnowledge ::
  "(string \<Rightarrow> string) \<Rightarrow> string \<Rightarrow> string option \<Rightarrow> error + KnowledgeEntry list" where
  "findRelevantKnowledge toLowerCase message currentEmotion =
     (let relevantKnowledge = message_matches toLowerCase message
      in case (case currentEmotion of
                 None \<Rightarrow> Inr relevantKnowledge
               | Some label \<Rightarrow>
                   if \<not> truthy_string label then Inr relevantKnowledge
                   else (case read_emotionKeywords label of
                           Undefined \<Rightarrow> Inr (relevantKnowledge @ emotion_matches [])
                         | OwnKeys ks \<Rightarrow> Inr (relevantKnowledge @ emotion_matches ks)
                         | InheritedMember \<Rightarrow>
                             Inl (TypeError ''emotionKeys.some is not a function''))) of
           Inl e \<Rightarrow> Inl e
         | Inr pushed \<Rightarrow> Inr (take 5 (array_from_set pushed)))"

section \<open>Emotion analysis (emotion-analysis)\<close>

text \<open>
  Field names are those of the zod schemas.  Where several schemas use one field name the
  selector is written with its record's name, as in \<open>FusedEmotions.primary\<close>.  An
  optional field of an object that has passed its schema is an \<open>option\<close>, \<open>None\<close> when the
  field is absent.  The \<^verbatim>\<open>emotions\<close> object of optional scores is a map from label to
  score.
\<close>

record AudioFeatures =
  pitch :: "real option"
  energy :: "real option"
  spectralCentroid :: "real option"
  mfcc :: "real list option"
  duration :: "real option"

record EmotionAnalysisInput =
  imageData :: "string option"
  audioFeatures :: "AudioFeatures option"
  textContent :: "string option"
  conversationHistory :: "string option"

record FacialEmotions =
  primary :: string
  confidence :: real
  emotions :: "string \<rightharpoonup> real"
  arousal :: real
  valence :: real

record VoiceEmotions =
  primary :: string
  confidence :: real
  emotions :: "string \<rightharpoonup> real"
  stress :: real
  energy :: real

record TextEmotions =
  primary :: string
  confidence :: real
  emotions :: "string \<rightharpoonup> real"
  sentiment :: real
  intensity :: real

record FusedEmotions =
  primary :: string
  confidence :: real
  emotions :: "string \<rightharpoonup> real"
  arousal :: real
  valence :: real
  distressLevel :: real

record AvatarExpression =
  expression :: string
  intensity :: real
  duration :: real

record FusionResult =
  primary :: string
  confidence :: real
  emotions :: "string \<rightharpoonup> real"
  arousal :: real
  valence :: real
  distressLevel :: real
  recommendations :: "string list"
  avatarExpression :: AvatarExpression

record EmotionAnalysisOutput =
  facialEmotions :: "FacialEmotions option"
  voiceEmotions :: "VoiceEmotions option"
  textEmotions :: "TextEmotions option"
  fusedEmotions :: FusedEmotions
  recommendations :: "string list"
  avatarExpression :: AvatarExpression

record TextPromptInput =
  textContent :: string
  conversationHistory :: "string option"

record FusionPromptInput =
  facialData :: "string option"
  voiceData :: "string option"
  textData :: "string option"

section \<open>Context management (enhanced-context-management)\<close>

text \<open>
  A turn as the fast flow's schema has it, and the turn with the two optional fields that
  the context manager and the comprehensive flow add.
\<close>

record Turn =
  speaker :: string
  message :: string
  timestamp :: string

record ConversationTurn = Turn +
  emotions :: "(string \<rightharpoonup> real) option"
  intent :: "string option"

text \<open>The values of \<^verbatim>\<open>preferences\<close> (\<^verbatim>\<open>z.any()\<close>) are kept as opaque text.\<close>

record UserProfile =
  therapeuticGoals :: "string list option"
  triggers :: "string list option"
  copingStrategies :: "string list option"
  preferences :: "(string \<rightharpoonup> string) option"

record ContextUserProfile =
  preferences :: "(string \<rightharpoonup> string) option"
  therapeuticGoals :: "string list option"
  triggers :: "string list option"
  copingStrategies :: "string list option"
  sessionHistory :: "string list option"

record EmotionalContext =
  currentEmotion :: "string option"
  emotionIntensity :: "real option"
  emotionTrend :: "string option"
  distressLevel :: "real option"

record HealthContext =
  wellnessScore :: "real option"
  stressLevel :: "real option"
  sleepQuality :: "real option"
  activityLevel :: "real option"

record ContextManagementInput =
  currentMessage :: string
  conversationHistory :: "ConversationTurn list"
  userProfile :: "ContextUserProfile option"
  emotionalContext :: "EmotionalContext option"
  healthContext :: "HealthContext option"

record RelevantContext =
  content :: string
  relevanceScore :: real
  source :: string
  timestamp :: "string option"

record TherapeuticIntent =
  primary :: string
  secondary :: "string list"
  confidence :: real

record ResponseStrategy =
  approach :: string
  tone :: string
  techniques :: "string list"
  avoidances :: "string list"

record ContextualFactors =
  emotionalState :: string
  urgencyLevel :: string
  sessionPhase :: string
  therapeuticAlliance :: real

record KnowledgeMatch =
  topic :: string
  content :: string
  relevanceScore :: real
  category :: string

record ContextManagementOutput =
  relevantContext :: "RelevantContext list"
  therapeuticIntent :: TherapeuticIntent
  responseStrategy :: ResponseStrategy
  contextualFactors :: ContextualFactors
  knowledgeBaseMatches :: "KnowledgeMatch list"
  adaptivePrompt :: string

record IntentPromptInput =
  message :: string
  conversationContext :: "string option"

section \<open>The comprehensive flow's data (comprehensive-mitr-ai)\<close>

record HeartRate =
  current :: "real option"
  resting :: "real option"
  variability :: "real option"

record Sleep =
  duration :: "real option"
  quality :: "real option"

record Activity =
  steps :: "real option"
  activeMinutes :: "real option"

record Stress =
  level :: "real option"

record WearablesData =
  heartRate :: "HeartRate option"
  sleep :: "Sleep option"
  activity :: "Activity option"
  stress :: "Stress option"
  timestamp :: string

record SessionContext =
  sessionId :: "string option"
  sessionPhase :: "string option"
  duration :: "real option"

record ComprehensiveMitrInput =
  userMessage :: string
  conversationHistory :: "ConversationTurn list option"
  imageData :: "string option"
  audioFeatures :: "AudioFeatures option"
  wearablesData :: "WearablesData option"
  userProfile :: "UserProfile option"
  sessionContext :: "SessionContext option"

text \<open>The shape of \<^verbatim>\<open>WearablesAnalysisOutput\<close> (wearables-analysis), the type of the stub.\<close>

record OverallWellness =
  score :: real
  trend :: string
  primaryConcerns :: "string list"

record PhysicalHealth =
  cardiovascularHealth :: real
  sleepQuality :: real
  activityLevel :: real
  recoveryStatus :: string

record MentalHealth =
  stressLevel :: real
  fatigueLevel :: real
  moodIndicators :: "string \<rightharpoonup> real"
  cognitiveLoad :: real

record HealthRecommendations =
  immediate :: "string list"
  shortTerm :: "string list"
  longTerm :: "string list"

record TherapeuticInsights =
  emotionalState :: string
  stressFactors :: "string list"
  copingCapacity :: real
  interventionNeeded :: bool

record WearableAlert =
  type :: string
  severity :: string
  message :: string
  action :: string

record WearablesAnalysisOutput =
  overallWellness :: OverallWellness
  physicalHealth :: PhysicalHealth
  mentalHealth :: MentalHealth
  recommendations :: HealthRecommendations
  therapeuticInsights :: TherapeuticInsights
  alerts :: "WearableAlert list"

text \<open>The output object, shared by the comprehensive and the fast flow.\<close>

record EmotionSummary =
  primary :: string
  confidence :: real
  distressLevel :: real
  recommendations :: "string list"

record HealthAlert =
  type :: string
  severity :: string
  message :: string

record HealthSummary =
  wellnessScore :: real
  stressLevel :: real
  alerts :: "HealthAlert list"
  recommendations :: "string list"

record ContextualInsights =
  therapeuticIntent :: string
  urgencyLevel :: string
  sessionPhase :: string
  therapeuticAlliance :: real

record AvatarControl =
  expression :: string
  intensity :: real
  duration :: real
  emotionalState :: string

record Interventions =
  immediate :: "string list"
  session :: "string list"
  longTerm :: "string list"

record SafetyAssessment =
  riskLevel :: string
  concerns :: "string list"
  actions :: "string list"
  followUp :: bool

record DataQuality =
  emotional :: real
  health :: real
  contextual :: real

record Metadata =
  analysisTimestamp :: string
  confidenceScore :: real
  dataQuality :: DataQuality

text \<open>
  \<^verbatim>\<open>healthAnalysis\<close> is optional in \<^verbatim>\<open>ComprehensiveMitrOutput\<close> and required in
  \<^verbatim>\<open>FastMitrOutput\<close>; the two output types are otherwise the same.
\<close>

record 'h MitrOutput =
  response :: string
  emotionAnalysis :: EmotionSummary
  healthAnalysis :: 'h
  contextualInsights :: ContextualInsights
  avatarControl :: AvatarControl
  interventions :: Interventions
  safetyAssessment :: SafetyAssessment
  metadata :: Metadata

type_synonym ComprehensiveMitrOutput = "HealthSummary option MitrOutput"

type_synonym FastMitrOutput = "HealthSummary MitrOutput"

text \<open>Inputs and outputs of the two prompts of the comprehensive flow.\<close>

record SafetyPromptInput =
  userMessage :: string
  emotionData :: string
  healthData :: "string option"
  conversationHistory :: "string option"

record SafetyResult =
  riskLevel :: string
  concerns :: "string list"
  actions :: "string list"
  followUp :: bool
  urgentIntervention :: bool

record ResponsePromptInput =
  userMessage :: string
  emotionAnalysis :: string
  healthAnalysis :: "string option"
  contextualGuidance :: string
  safetyFactors :: string

record ResponseResult =
  response :: string
  interventions :: Interventions
  safetyAssessment :: SafetyAssessment

text \<open>The fast flow (fast-mitr-ai).\<close>

record FastMitrInput =
  userMessage :: string
  conversationHistory :: "Turn list option"

record FastPromptInput =
  userMessage :: string
  conversationHistory :: "string option"

record FastPromptResult =
  response :: string

section \<open>The boundary to the hosted model\<close>

text \<open>
  Every prompt defined with \<^verbatim>\<open>ai.definePrompt\<close> is a parameter: called on its input it
  throws (\<open>Inl\<close>), or resolves to a response whose \<^verbatim>\<open>output\<close> is \<^verbatim>\<open>null\<close> (\<open>Inr None\<close>)
  or an object of the declared output schema (\<open>Inr (Some out)\<close>).  \<^verbatim>\<open>JSON.stringify\<close>
  is a parameter at each type it is applied to, and so are \<^verbatim>\<open>toLowerCase\<close> and \<^verbatim>\<open>trim\<close>.  A flow returns the list of the model
  calls it issued, in order and each with the input it sent, next to its result.  No flow
  calls one prompt twice, so a function of the prompt's input describes a run; what else
  varies from run to run (the clock, the random draw) is a parameter of the flow.
\<close>

record env =
  facialEmotionPrompt :: "string \<Rightarrow> error + FacialEmotions option"
  voiceEmotionPrompt :: "AudioFeatures \<Rightarrow> error + VoiceEmotions option"
  textEmotionPrompt :: "TextPromptInput \<Rightarrow> error + TextEmotions option"
  multimodalFusionPrompt :: "FusionPromptInput \<Rightarrow> error + FusionResult option"
  intentClassificationPrompt :: "IntentPromptInput \<Rightarrow> error + TherapeuticIntent option"
  contextAnalysisPrompt :: "ContextManagementInput \<Rightarrow> error + ContextManagementOutput option"
  safetyAssessmentPrompt :: "SafetyPromptInput \<Rightarrow> error + SafetyResult option"
  therapeuticResponsePrompt :: "ResponsePromptInput \<Rightarrow> error + ResponseResult option"
  fastTherapistPrompt :: "FastPromptInput \<Rightarrow> error + FastPromptResult option"
  wearablesAnalysisPrompt :: "WearablesData \<Rightarrow> error + WearablesAnalysisOutput option"
  stringifyFacial :: "FacialEmotions \<Rightarrow> string"
  stringifyVoice :: "VoiceEmotions \<Rightarrow> string"
  stringifyText :: "TextEmotions \<Rightarrow> string"
  stringifyFused :: "FusedEmotions \<Rightarrow> string"
  stringifyEmotionAnalysis :: "EmotionAnalysisOutput \<Rightarrow> string"
  stringifyGuidance :: "ContextManagementOutput \<Rightarrow> string"
  stringifySafety :: "SafetyResult option \<Rightarrow> string"
  toLowerCase :: "string \<Rightarrow> string"
  trim :: "string \<Rightarrow> string"

datatype call =
    FacialEmotionCall string
  | VoiceEmotionCall AudioFeatures
  | TextEmotionCall TextPromptInput
  | MultimodalFusionCall FusionPromptInput
  | IntentClassificationCall IntentPromptInput
  | ContextAnalysisCall ContextManagementInput
  | SafetyAssessmentCall SafetyPromptInput
  | TherapeuticResponseCall ResponsePromptInput
  | FastTherapistCall FastPromptInput
  | WearablesAnalysisCall WearablesData

definition newline :: string where
  "newline = [CHR 0x0A]"

text \<open>The template literal \<^verbatim>\<open>`${msg.speaker}: ${msg.message}`\<close>.\<close>

definition turn_line :: "'a Turn_scheme \<Rightarrow> string" where
  "turn_line msg = speaker msg @ '': '' @ Turn.message msg"

section \<open>emotionAnalysisFlow\<close>

text \<open>
  Each modality is analysed when its input is truthy (the three guarded blocks are
  \<open>analyzeFacial\<close>, \<open>analyzeVoice\<close> and \<open>analyzeText\<close>).  A throwing analyser is caught and
  leaves its property of \<^verbatim>\<open>results\<close> unassigned; an analyser that resolves assigns its
  \<^verbatim>\<open>output\<close>, be it an object or \<^verbatim>\<open>null\<close>.  The fusion prompt is then called in every case,
  outside any \<^verbatim>\<open>try\<close>, with the serialisation of each truthy result; reading
  \<^verbatim>\<open>fusionResult.primary\<close> on a \<^verbatim>\<open>null\<close> output throws a TypeError.  The flow declares
  \<^verbatim>\<open>outputSchema: EmotionAnalysisOutputSchema\<close>, whose three modality fields are optional
  objects: a \<^verbatim>\<open>results\<close> in which one of them is \<^verbatim>\<open>null\<close> does not parse, and the flow throws
  instead of returning it.
\<close>

definition analyzeFacial ::
  "env \<Rightarrow> EmotionAnalysisInput \<Rightarrow> call list \<times> FacialEmotions assigned" where
  "analyzeFacial env input =
     (case EmotionAnalysisInput.imageData input of
        None \<Rightarrow> ([], Unassigned)
      | Some img \<Rightarrow>
          if truthy_string img
          then ([FacialEmotionCall img],
                case facialEmotionPrompt env img of
                  Inl error \<Rightarrow> Unassigned
                | Inr None \<Rightarrow> AssignedNull
                | Inr (Some out) \<Rightarrow> Assigned out)
          else ([], Unassigned))"

definition analyzeVoice ::
  "env \<Rightarrow> EmotionAnalysisInput \<Rightarrow> call list \<times> VoiceEmotions assigned" where
  "analyzeVoice env input =
     (case EmotionAnalysisInput.audioFeatures input of
        None \<Rightarrow> ([], Unassigned)
      | Some features \<Rightarrow>
          ([VoiceEmotionCall features],
           case voiceEmotionPrompt env features of
             Inl error \<Rightarrow> Unassigned
           | Inr None \<Rightarrow> AssignedNull
           | Inr (Some out) \<Rightarrow> Assigned out))"

definition analyzeText ::
  "env \<Rightarrow> EmotionAnalysisInput \<Rightarrow> call list \<times> TextEmotions assigned" where
  "analyzeText env input =
     (case EmotionAnalysisInput.textContent input of
        None \<Rightarrow> ([], Unassigned)
      | Some txt \<Rightarrow>
          if truthy_string txt
          then (let textInput =
                      \<lparr>TextPromptInput.textContent = txt,
                       TextPromptInput.conversationHistory =
                         EmotionAnalysisInput.conversationHistory input\<rparr>
                in ([TextEmotionCall textInput],
                    case textEmotionPrompt env textInput of
                      Inl error \<Rightarrow> Unassigned
                    | Inr None \<Rightarrow> AssignedNull
                    | Inr (Some out) \<Rightarrow> Assigned out))
          else ([], Unassigned))"

definition fusionInput ::
  "env \<Rightarrow> FacialEmotions assigned \<Rightarrow> VoiceEmotions assigned \<Rightarrow> TextEmotions assigned
     \<Rightarrow> FusionPromptInput" where
  "fusionInput env facialResult voiceResult textResult =
     \<lparr>facialData = map_option (stringifyFacial env) (assigned_value facialResult),
      voiceData = map_option (stringifyVoice env) (assigned_value voiceResult),
      textData = map_option (stringifyText env) (assigned_value textResult)\<rparr>"

definition emotionAnalysisFlow ::
  "env \<Rightarrow> EmotionAnalysisInput \<Rightarrow> call list \<times> (error + EmotionAnalysisOutput)" where
  "emotionAnalysisFlow env input =
     (let (calls1, facialResult) = analyzeFacial env input;
          (calls2, voiceResult) = analyzeVoice env input;
          (calls3, textResult) = analyzeText env input;
          fusionIn = fusionInput env facialResult voiceResult textResult;
          calls = calls1 @ calls2 @ calls3 @ [MultimodalFusionCall fusionIn]
      in case multimodalFusionPrompt env fusionIn of
           Inl error \<Rightarrow> (calls, Inl error)
         | Inr None \<Rightarrow> (calls, Inl (TypeError ''Cannot read properties of null''))
         | Inr (Some fusionResult) \<Rightarrow>
             if facialResult = AssignedNull \<or> voiceResult = AssignedNull
                \<or> textResult = AssignedNull
             then (calls, Inl (ValidationError ''Schema validation failed''))
             else
               (calls,
                Inr \<lparr>facialEmotions = assigned_value facialResult,
                     voiceEmotions = assigned_value voiceResult,
                     textEmotions = assigned_value textResult,
                     fusedEmotions =
                       \<lparr>FusedEmotions.primary = FusionResult.primary fusionResult,
                        FusedEmotions.confidence = FusionResult.confidence fusionResult,
                        FusedEmotions.emotions = FusionResult.emotions fusionResult,
                        FusedEmotions.arousal = FusionResult.arousal fusionResult,
                        FusedEmotions.valence = FusionResult.valence fusionResult,
                        FusedEmotions.distressLevel = FusionResult.distressLevel fusionResult\<rparr>,
                     EmotionAnalysisOutput.recommendations =
                       FusionResult.recommendations fusionResult,
                     EmotionAnalysisOutput.avatarExpression =
                       FusionResult.avatarExpression fusionResult\<rparr>))"

definition analyzeEmotions ::
  "env \<Rightarrow> EmotionAnalysisInput \<Rightarrow> call list \<times> (error + EmotionAnalysisOutput)" where
  "analyzeEmotions env input = emotionAnalysisFlow env input"

section \<open>contextManagementFlow\<close>

definition contextManagementFlow ::
  "env \<Rightarrow> ContextManagementInput \<Rightarrow> call list \<times> (error + ContextManagementOutput)" where
  "contextManagementFlow env input =
     (let conversationContext =
            join newline
              (map turn_line (slice_last 5 (ContextManagementInput.conversationHistory input)));
          intentInput =
            \<lparr>IntentPromptInput.message = currentMessage input,
             conversationContext = Some conversationContext\<rparr>;
          calls1 = [IntentClassificationCall intentInput]
      in case intentClassificationPrompt env intentInput of
           Inl error \<Rightarrow> (calls1, Inl error)
         | Inr intentResult \<Rightarrow>
             (case findRelevantKnowledge (toLowerCase env) (currentMessage input)
                     (Option.bind (emotionalContext input) currentEmotion) of
                Inl error \<Rightarrow> (calls1, Inl error)
              | Inr relevantKnowledge \<Rightarrow>
                  (let calls2 = calls1 @ [ContextAnalysisCall input]
                   in case contextAnalysisPrompt env input of
                        Inl error \<Rightarrow> (calls2, Inl error)
                      | Inr None \<Rightarrow>
                          (calls2, Inl (Error ''Context analysis failed to produce results''))
                      | Inr (Some contextResult) \<Rightarrow>
                          (case intentResult of
                             None \<Rightarrow>
                               (calls2,
                                Inl (Error ''Intent classification failed to produce results''))
                           | Some intentOutput \<Rightarrow>
                               (calls2,
                                Inr (contextResult
                                      \<lparr>knowledgeBaseMatches :=
                                         map (\<lambda>item.
                                                \<lparr>KnowledgeMatch.topic = KnowledgeEntry.topic item,
                                                 KnowledgeMatch.content = KnowledgeEntry.content item,
                                                 KnowledgeMatch.relevanceScore = 0.8,
                                                 KnowledgeMatch.category = KnowledgeEntry.category item\<rparr>)
                                           relevantKnowledge,
                                       ContextManagementOutput.therapeuticIntent := intentOutput\<rparr>))))))"

definition manageContext ::
  "env \<Rightarrow> ContextManagementInput \<Rightarrow> call list \<times> (error + ContextManagementOutput)" where
  "manageContext env input = contextManagementFlow env input"

section \<open>wearablesAnalysisFlow (wearables-analysis)\<close>

text \<open>
  The flow that \<^verbatim>\<open>comprehensive-mitr-ai\<close> imports as \<^verbatim>\<open>analyzeWearablesData\<close>: one call of
  \<^verbatim>\<open>wearablesAnalysisPrompt\<close>, whose output is returned (\<^verbatim>\<open>output!\<close> asserts a type only);
  an output of \<^verbatim>\<open>null\<close> does not parse against the flow's \<^verbatim>\<open>outputSchema\<close>.  Its input is
  given with the fields that the comprehensive flow's input schema has for
  \<^verbatim>\<open>wearablesData\<close>.
\<close>

definition wearablesAnalysisFlow ::
  "env \<Rightarrow> WearablesData \<Rightarrow> call list \<times> (error + WearablesAnalysisOutput)" where
  "wearablesAnalysisFlow env input =
     ([WearablesAnalysisCall input],
      case wearablesAnalysisPrompt env input of
        Inl error \<Rightarrow> Inl error
      | Inr None \<Rightarrow> Inl (ValidationError ''Schema validation failed'')
      | Inr (Some out) \<Rightarrow> Inr out)"

definition analyzeWearablesData ::
  "env \<Rightarrow> WearablesData \<Rightarrow> call list \<times> (error + WearablesAnalysisOutput)" where
  "analyzeWearablesData env input = wearablesAnalysisFlow env input"

section \<open>comprehensiveMitrFlow\<close>

text \<open>
  The stub of step 2.  \<open>random\<close> is the value \<^verbatim>\<open>Math.random()\<close> returns, a number in
  \<open>[0, 1)\<close>; nothing else of the stub varies.
\<close>

definition healthAnalysisStub :: "real \<Rightarrow> WearablesAnalysisOutput" where
  "healthAnalysisStub random =
     \<lparr>overallWellness =
        \<lparr>score = 75 + of_int \<lfloor>random * 15\<rfloor>, trend = ''stable'', primaryConcerns = []\<rparr>,
      physicalHealth =
        \<lparr>cardiovascularHealth = 80, PhysicalHealth.sleepQuality = 70,
         PhysicalHealth.activityLevel = 65, recoveryStatus = ''good''\<rparr>,
      mentalHealth =
        \<lparr>MentalHealth.stressLevel = 35, fatigueLevel = 40,
         moodIndicators = [''calm'' \<mapsto> 0.7, ''energetic'' \<mapsto> 0.6, ''focused'' \<mapsto> 0.7],
         cognitiveLoad = 50\<rparr>,
      WearablesAnalysisOutput.recommendations =
        \<lparr>HealthRecommendations.immediate = [''Take a deep breath'', ''Stay hydrated''],
         shortTerm = [''Maintain regular sleep schedule''],
         HealthRecommendations.longTerm = [''Build consistent exercise routine'']\<rparr>,
      therapeuticInsights =
        \<lparr>TherapeuticInsights.emotionalState = ''calm'', stressFactors = [],
         copingCapacity = 80, interventionNeeded = False\<rparr>,
      WearablesAnalysisOutput.alerts = []\<rparr>"

text \<open>
  The flow, in the six numbered steps of the source.  The object literals it builds
  (\<^verbatim>\<open>emotionInput\<close>, \<^verbatim>\<open>contextInput\<close>, the inputs of the two prompts and \<^verbatim>\<open>result\<close>)
  are definitions of their own; the flow below puts them together.  A parameter named like
  a field of some record carries a prime.
\<close>

definition emotionInput :: "ComprehensiveMitrInput \<Rightarrow> EmotionAnalysisInput" where
  "emotionInput input =
     \<lparr>EmotionAnalysisInput.imageData = ComprehensiveMitrInput.imageData input,
      EmotionAnalysisInput.audioFeatures = ComprehensiveMitrInput.audioFeatures input,
      EmotionAnalysisInput.textContent = Some (ComprehensiveMitrInput.userMessage input),
      EmotionAnalysisInput.conversationHistory =
        map_option (\<lambda>history. join newline (map turn_line history))
          (ComprehensiveMitrInput.conversationHistory input)\<rparr>"

text \<open>Step 1: \<^verbatim>\<open>try { emotionAnalysis = await analyzeEmotions(emotionInput) } catch\<close>.\<close>

definition step1_emotionAnalysis ::
  "env \<Rightarrow> ComprehensiveMitrInput \<Rightarrow> call list \<times> EmotionAnalysisOutput option" where
  "step1_emotionAnalysis env input =
     (let (calls, outcome) = analyzeEmotions env (emotionInput input)
      in (calls, case outcome of Inl error \<Rightarrow> None | Inr a \<Rightarrow> Some a))"

definition contextInput ::
  "ComprehensiveMitrInput \<Rightarrow> EmotionAnalysisOutput option \<Rightarrow> WearablesAnalysisOutput option
     \<Rightarrow> ContextManagementInput" where
  "contextInput input emotionAnalysis' healthAnalysis' =
     \<lparr>currentMessage = ComprehensiveMitrInput.userMessage input,
      ContextManagementInput.conversationHistory =
        js_or truthy_object (ComprehensiveMitrInput.conversationHistory input) [],
      ContextManagementInput.userProfile =
        map_option
          (\<lambda>profile.
             \<lparr>ContextUserProfile.preferences = UserProfile.preferences profile,
              ContextUserProfile.therapeuticGoals = UserProfile.therapeuticGoals profile,
              ContextUserProfile.triggers = UserProfile.triggers profile,
              ContextUserProfile.copingStrategies = UserProfile.copingStrategies profile,
              sessionHistory = None\<rparr>)
          (ComprehensiveMitrInput.userProfile input),
      emotionalContext =
        map_option
          (\<lambda>a. \<lparr>currentEmotion = Some (FusedEmotions.primary (fusedEmotions a)),
                emotionIntensity = Some (FusedEmotions.confidence (fusedEmotions a)),
                emotionTrend = None,
                EmotionalContext.distressLevel =
                  Some (FusedEmotions.distressLevel (fusedEmotions a))\<rparr>)
          emotionAnalysis',
      healthContext =
        map_option
          (\<lambda>h. \<lparr>HealthContext.wellnessScore = Some (score (overallWellness h)),
                HealthContext.stressLevel = Some (MentalHealth.stressLevel (mentalHealth h)),
                HealthContext.sleepQuality = Some (PhysicalHealth.sleepQuality (physicalHealth h)),
                HealthContext.activityLevel =
                  Some (PhysicalHealth.activityLevel (physicalHealth h))\<rparr>)
          healthAnalysis'\<rparr>"

text \<open>Step 3: \<^verbatim>\<open>try { contextualGuidance = await manageContext(contextInput) } catch\<close>.\<close>

definition step3_contextualGuidance ::
  "env \<Rightarrow> ComprehensiveMitrInput \<Rightarrow> EmotionAnalysisOutput option
     \<Rightarrow> WearablesAnalysisOutput option \<Rightarrow> call list \<times> ContextManagementOutput option" where
  "step3_contextualGuidance env input emotionAnalysis' healthAnalysis' =
     (let (calls, outcome) = manageContext env (contextInput input emotionAnalysis' healthAnalysis')
      in (calls, case outcome of Inl error \<Rightarrow> None | Inr g \<Rightarrow> Some g))"

text \<open>Step 4: the argument of \<^verbatim>\<open>safetyAssessmentPrompt\<close>; no \<^verbatim>\<open>healthData\<close> is passed.\<close>

definition safetyInput ::
  "env \<Rightarrow> ComprehensiveMitrInput \<Rightarrow> EmotionAnalysisOutput option \<Rightarrow> SafetyPromptInput" where
  "safetyInput env input emotionAnalysis' =
     \<lparr>SafetyPromptInput.userMessage = ComprehensiveMitrInput.userMessage input,
      emotionData =
        (case emotionAnalysis' of
           Some a \<Rightarrow> stringifyFused env (fusedEmotions a)
         | None \<Rightarrow> ''No emotion data''),
      healthData = None,
      SafetyPromptInput.conversationHistory =
        map_option (\<lambda>history. join newline (map turn_line (slice_last 3 history)))
          (ComprehensiveMitrInput.conversationHistory input)\<rparr>"

text \<open>Step 5: the argument of \<^verbatim>\<open>therapeuticResponsePrompt\<close>; no \<^verbatim>\<open>healthAnalysis\<close>.\<close>

definition responseInput ::
  "env \<Rightarrow> ComprehensiveMitrInput \<Rightarrow> EmotionAnalysisOutput option
     \<Rightarrow> ContextManagementOutput option \<Rightarrow> SafetyResult option \<Rightarrow> ResponsePromptInput" where
  "responseInput env input emotionAnalysis' guidance safetyOutput =
     \<lparr>ResponsePromptInput.userMessage = ComprehensiveMitrInput.userMessage input,
      ResponsePromptInput.emotionAnalysis =
        (case emotionAnalysis' of
           Some a \<Rightarrow> stringifyEmotionAnalysis env a
         | None \<Rightarrow> ''No emotion analysis available''),
      ResponsePromptInput.healthAnalysis = None,
      contextualGuidance =
        (case guidance of
           Some g \<Rightarrow> stringifyGuidance env g
         | None \<Rightarrow> ''No contextual guidance available''),
      safetyFactors = stringifySafety env safetyOutput\<rparr>"

text \<open>
  Step 6, the object \<^verbatim>\<open>result\<close>.  \<^verbatim>\<open>a?.b?.c || d\<close> is \<open>js_or\<close> on the optional value;
  \<^verbatim>\<open>x ? f(x) : d\<close> on an object tests its presence.  The output schema keeps \<^verbatim>\<open>type\<close>,
  \<^verbatim>\<open>severity\<close> and \<^verbatim>\<open>message\<close> of a health alert.
\<close>

definition compileResult ::
  "string \<Rightarrow> EmotionAnalysisOutput option \<Rightarrow> WearablesAnalysisOutput option
     \<Rightarrow> ContextManagementOutput option \<Rightarrow> SafetyResult option \<Rightarrow> ResponseResult option
     \<Rightarrow> ComprehensiveMitrOutput" where
  "compileResult timestamp' emotionAnalysis' healthAnalysis' guidance safetyOutput responseOutput =
     \<lparr>MitrOutput.response =
        js_or truthy_string (map_option ResponseResult.response responseOutput)
          ''I apologize, but I encountered an issue generating a response. Please try again.'',
      MitrOutput.emotionAnalysis =
        \<lparr>EmotionSummary.primary =
           js_or truthy_string
             (map_option (\<lambda>a. FusedEmotions.primary (fusedEmotions a)) emotionAnalysis')
             ''neutral'',
         EmotionSummary.confidence =
           js_or truthy_number
             (map_option (\<lambda>a. FusedEmotions.confidence (fusedEmotions a)) emotionAnalysis')
             0.5,
         EmotionSummary.distressLevel =
           js_or truthy_number
             (map_option (\<lambda>a. FusedEmotions.distressLevel (fusedEmotions a)) emotionAnalysis')
             0.3,
         EmotionSummary.recommendations =
           js_or truthy_object
             (map_option EmotionAnalysisOutput.recommendations emotionAnalysis') []\<rparr>,
      MitrOutput.healthAnalysis =
        map_option
          (\<lambda>h. \<lparr>HealthSummary.wellnessScore = score (overallWellness h),
                HealthSummary.stressLevel = MentalHealth.stressLevel (mentalHealth h),
                HealthSummary.alerts =
                  map (\<lambda>alert.
                         \<lparr>HealthAlert.type = WearableAlert.type alert,
                          HealthAlert.severity = WearableAlert.severity alert,
                          HealthAlert.message = WearableAlert.message alert\<rparr>)
                    (WearablesAnalysisOutput.alerts h),
                HealthSummary.recommendations =
                  HealthRecommendations.immediate (WearablesAnalysisOutput.recommendations h)\<rparr>)
          healthAnalysis',
      contextualInsights =
        \<lparr>ContextualInsights.therapeuticIntent =
           js_or truthy_string
             (map_option
                (\<lambda>g. TherapeuticIntent.primary (ContextManagementOutput.therapeuticIntent g))
                guidance)
             ''emotional_support'',
         ContextualInsights.urgencyLevel =
           js_or truthy_string
             (map_option (\<lambda>g. ContextualFactors.urgencyLevel (contextualFactors g)) guidance)
             ''low'',
         ContextualInsights.sessionPhase =
           js_or truthy_string
             (map_option (\<lambda>g. ContextualFactors.sessionPhase (contextualFactors g)) guidance)
             ''exploration'',
         ContextualInsights.therapeuticAlliance =
           js_or truthy_number
             (map_option (\<lambda>g. ContextualFactors.therapeuticAlliance (contextualFactors g))
                guidance)
             70\<rparr>,
      avatarControl =
        (case map_option EmotionAnalysisOutput.avatarExpression emotionAnalysis' of
           Some avatar \<Rightarrow>
             \<lparr>AvatarControl.expression = AvatarExpression.expression avatar,
              AvatarControl.intensity = AvatarExpression.intensity avatar,
              AvatarControl.duration = AvatarExpression.duration avatar,
              AvatarControl.emotionalState = ''supportive''\<rparr>
         | None \<Rightarrow>
             \<lparr>AvatarControl.expression = ''empathetic'',
              AvatarControl.intensity = 0.7,
              AvatarControl.duration = 5,
              AvatarControl.emotionalState = ''supportive''\<rparr>),
      MitrOutput.interventions =
        js_or truthy_object (map_option ResponseResult.interventions responseOutput)
          \<lparr>Interventions.immediate =
             [''Take a deep breath'', ''Ground yourself in the present moment''],
           session = [''Explore your feelings'', ''Practice mindfulness''],
           Interventions.longTerm =
             [''Develop coping strategies'', ''Build emotional resilience'']\<rparr>,
      MitrOutput.safetyAssessment =
        \<lparr>SafetyAssessment.riskLevel =
           js_or truthy_string (map_option SafetyResult.riskLevel safetyOutput) ''low'',
         SafetyAssessment.concerns =
           js_or truthy_object (map_option SafetyResult.concerns safetyOutput) [],
         SafetyAssessment.actions =
           js_or truthy_object (map_option SafetyResult.actions safetyOutput) [],
         SafetyAssessment.followUp =
           js_or truthy_boolean (map_option SafetyResult.followUp safetyOutput) False\<rparr>,
      metadata =
        \<lparr>analysisTimestamp = timestamp',
         confidenceScore =
           (js_or truthy_number
              (map_option (\<lambda>a. FusedEmotions.confidence (fusedEmotions a)) emotionAnalysis')
              0.5
            + js_or truthy_number
                (map_option
                   (\<lambda>g. TherapeuticIntent.confidence (ContextManagementOutput.therapeuticIntent g))
                   guidance)
                0.5) / 2,
         dataQuality =
           \<lparr>emotional = (if emotionAnalysis' \<noteq> None then 0.8 else 0.3),
            health = (if healthAnalysis' \<noteq> None then 0.9 else 0.0),
            contextual = (if guidance \<noteq> None then 0.8 else 0.5)\<rparr>\<rparr>\<rparr>"

text \<open>
  \<open>now\<close> is \<^verbatim>\<open>new Date().toISOString()\<close>.  Steps 1 and 3 catch what their stage throws
  and leave \<^verbatim>\<open>null\<close>; steps 4 and 5 are awaited outside any \<^verbatim>\<open>try\<close>, so what they throw
  leaves the flow.
\<close>

definition comprehensiveMitrFlow ::
  "env \<Rightarrow> string \<Rightarrow> real \<Rightarrow> ComprehensiveMitrInput
     \<Rightarrow> call list \<times> (error + ComprehensiveMitrOutput)" where
  "comprehensiveMitrFlow env now random input =
     (let timestamp = now;
          (calls1, emotionAnalysis) = step1_emotionAnalysis env input;
          healthAnalysis = Some (healthAnalysisStub random);
          (calls2, guidance) = step3_contextualGuidance env input emotionAnalysis healthAnalysis;
          safetyIn = safetyInput env input emotionAnalysis;
          calls3 = calls1 @ calls2 @ [SafetyAssessmentCall safetyIn]
      in case safetyAssessmentPrompt env safetyIn of
           Inl error \<Rightarrow> (calls3, Inl error)
         | Inr safetyOutput \<Rightarrow>
             (let responseIn = responseInput env input emotionAnalysis guidance safetyOutput;
                  calls4 = calls3 @ [TherapeuticResponseCall responseIn]
              in case therapeuticResponsePrompt env responseIn of
                   Inl error \<Rightarrow> (calls4, Inl error)
                 | Inr responseOutput \<Rightarrow>
                     (calls4,
                      Inr (compileResult timestamp emotionAnalysis healthAnalysis guidance
                             safetyOutput responseOutput))))"

definition processComprehensiveMitrRequest ::
  "env \<Rightarrow> string \<Rightarrow> real \<Rightarrow> ComprehensiveMitrInput
     \<Rightarrow> call list \<times> (error + ComprehensiveMitrOutput)" where
  "processComprehensiveMitrRequest env now random input =
     comprehensiveMitrFlow env now random input"

section \<open>fastMitrFlow\<close>

definition fastMitrFlow ::
  "env \<Rightarrow> string \<Rightarrow> FastMitrInput \<Rightarrow> call list \<times> (error + FastMitrOutput)" where
  "fastMitrFlow env now input =
     (let timestamp = now;
          recentConversation =
            (case FastMitrInput.conversationHistory input of
               Some history \<Rightarrow> Some (join newline (map turn_line (slice_last 3 history)))
             | None \<Rightarrow> None);
          promptInput =
            \<lparr>FastPromptInput.userMessage = FastMitrInput.userMessage input,
             FastPromptInput.conversationHistory = recentConversation\<rparr>;
          calls = [FastTherapistCall promptInput]
      in case fastTherapistPrompt env promptInput of
           Inl error \<Rightarrow> (calls, Inl error)
         | Inr responseOutput \<Rightarrow>
             (calls,
              Inr \<lparr>MitrOutput.response =
                     js_or truthy_string (map_option FastPromptResult.response responseOutput)
                       ''I understand. How can I help you today?'',
                   MitrOutput.emotionAnalysis =
                     \<lparr>EmotionSummary.primary = ''neutral'',
                      EmotionSummary.confidence = 0.8,
                      EmotionSummary.distressLevel = 0.3,
                      EmotionSummary.recommendations =
                        [''Focus on the present'', ''Express your feelings'']\<rparr>,
                   MitrOutput.healthAnalysis =
                     \<lparr>HealthSummary.wellnessScore = 75,
                      HealthSummary.stressLevel = 35,
                      HealthSummary.alerts = [],
                      HealthSummary.recommendations = [''Take regular breaks'', ''Stay hydrated'']\<rparr>,
                   contextualInsights =
                     \<lparr>ContextualInsights.therapeuticIntent = ''supportive_listening'',
                      ContextualInsights.urgencyLevel = ''low'',
                      ContextualInsights.sessionPhase = ''exploration'',
                      ContextualInsights.therapeuticAlliance = 75\<rparr>,
                   avatarControl =
                     \<lparr>AvatarControl.expression = ''empathetic'',
                      AvatarControl.intensity = 0.7,
                      AvatarControl.duration = 3,
                      AvatarControl.emotionalState = ''attentive''\<rparr>,
                   MitrOutput.interventions =
                     \<lparr>Interventions.immediate =
                        [''Take a deep breath'', ''Ground yourself in the present moment''],
                      session = [''Express your feelings'', ''Practice mindfulness''],
                      Interventions.longTerm =
                        [''Develop coping strategies'', ''Build emotional resilience'']\<rparr>,
                   MitrOutput.safetyAssessment =
                     \<lparr>SafetyAssessment.riskLevel = ''low'',
                      SafetyAssessment.concerns = [],
                      SafetyAssessment.actions = [],
                      SafetyAssessment.followUp = False\<rparr>,
                   metadata =
                     \<lparr>analysisTimestamp = timestamp,
                      confidenceScore = 0.8,
                      dataQuality = \<lparr>emotional = 0.7, health = 0.7, contextual = 0.7\<rparr>\<rparr>\<rparr>))"

definition processFastMitrRequest ::
  "env \<Rightarrow> string \<Rightarrow> FastMitrInput \<Rightarrow> call list \<times> (error + FastMitrOutput)" where
  "processFastMitrRequest env now input = fastMitrFlow env now input"

section \<open>The chat interface (EnhancedChatInterface)\<close>

text \<open>
  The component's state as far as \<^verbatim>\<open>handleSendMessage\<close> changes what the user sees of a
  reply: the message list, the error text, the loading flags and the toasts raised with
  \<^verbatim>\<open>toast(...)\<close>.  The analysis panel's state (\<^verbatim>\<open>currentAnalysis\<close>), which the handler
  also overwrites from the reply, takes no part in raising a toast and is left out.
\<close>

record EnhancedMessage =
  id :: string
  speaker :: string
  text_msg :: string
  timestamp :: string
  emotions :: "(string \<rightharpoonup> real) option"
  intent :: "string option"
  analysis :: "FastMitrOutput option"

record Toast =
  variant :: string
  title :: string
  description :: string

record ChatState =
  userInput :: string
  conversationHistory :: "EnhancedMessage list"
  isLoading :: bool
  isAnalyzing :: bool
  error :: "string option"
  toasts :: "Toast list"

text \<open>The values \<^verbatim>\<open>crypto.randomUUID()\<close> and \<^verbatim>\<open>new Date().toISOString()\<close> give the handler.\<close>

record Fresh =
  userMessageId :: string
  userMessageTime :: string
  flowTime :: string
  replyId :: string
  replyTime :: string

text \<open>What the handler does with a reply \<^verbatim>\<open>aiOutput\<close> once the flow has returned it.\<close>

definition showResponse :: "Fresh \<Rightarrow> FastMitrOutput \<Rightarrow> ChatState \<Rightarrow> ChatState" where
  "showResponse fresh aiOutput st =
     (let aiMessage =
            \<lparr>id = replyId fresh,
             EnhancedMessage.speaker = ''ai'',
             text_msg = MitrOutput.response aiOutput,
             EnhancedMessage.timestamp = replyTime fresh,
             EnhancedMessage.emotions =
               Some [EmotionSummary.primary (MitrOutput.emotionAnalysis aiOutput) \<mapsto>
                       EmotionSummary.confidence (MitrOutput.emotionAnalysis aiOutput)],
             EnhancedMessage.intent =
               Some (ContextualInsights.therapeuticIntent (contextualInsights aiOutput)),
             analysis = Some aiOutput\<rparr>;
          st1 = st\<lparr>ChatState.conversationHistory := ChatState.conversationHistory st @ [aiMessage]\<rparr>
      in if SafetyAssessment.riskLevel (MitrOutput.safetyAssessment aiOutput) = ''critical''
         then st1\<lparr>toasts := toasts st1 @
                 [\<lparr>variant = ''destructive'',
                   title =
                     toUpperCase (SafetyAssessment.riskLevel (MitrOutput.safetyAssessment aiOutput))
                       @ '' Risk Detected'',
                   description =
                     join '', ''
                       (SafetyAssessment.concerns (MitrOutput.safetyAssessment aiOutput))\<rparr>]\<rparr>
         else st1)"

definition handleSendMessage :: "env \<Rightarrow> Fresh \<Rightarrow> ChatState \<Rightarrow> call list \<times> ChatState" where
  "handleSendMessage env fresh st =
     (if \<not> truthy_string (trim env (userInput st)) \<or> isLoading st then ([], st)
      else
        (let newUserMessage =
               \<lparr>id = userMessageId fresh,
                EnhancedMessage.speaker = ''user'',
                text_msg = trim env (userInput st),
                EnhancedMessage.timestamp = userMessageTime fresh,
                EnhancedMessage.emotions = None,
                EnhancedMessage.intent = None,
                analysis = None\<rparr>;
             st1 = st\<lparr>ChatState.conversationHistory :=
                        ChatState.conversationHistory st @ [newUserMessage],
                      userInput := [], isLoading := True, isAnalyzing := True, error := None\<rparr>;
             fastInput =
               \<lparr>FastMitrInput.userMessage = text_msg newUserMessage,
                FastMitrInput.conversationHistory =
                  Some (map (\<lambda>msg. \<lparr>Turn.speaker = EnhancedMessage.speaker msg,
                                    Turn.message = text_msg msg,
                                    Turn.timestamp = EnhancedMessage.timestamp msg\<rparr>)
                          (ChatState.conversationHistory st))\<rparr>;
             (calls, outcome) = processFastMitrRequest env (flowTime fresh) fastInput;
             st2 =
               (case outcome of
                  Inr aiOutput \<Rightarrow> showResponse fresh aiOutput st1
                | Inl err \<Rightarrow>
                    (let errorMessageText =
                           ''Sorry, I couldn't process your message right now. Please try again later.'';
                         errorMessage =
                           \<lparr>id = replyId fresh,
                            EnhancedMessage.speaker = ''ai'',
                            text_msg = errorMessageText,
                            EnhancedMessage.timestamp = replyTime fresh,
                            EnhancedMessage.emotions = None,
                            EnhancedMessage.intent = None,
                            analysis = None\<rparr>
                     in st1\<lparr>error := Some errorMessageText,
                            ChatState.conversationHistory :=
                              ChatState.conversationHistory st1 @ [errorMessage]\<rparr>))
         in (calls, st2\<lparr>isLoading := False, isAnalyzing := False\<rparr>)))"

section \<open>Properties and sample data\<close>

text \<open>The record invariant of a fused emotion record: its primary label has a score, and
  its confidence is a probability.\<close>

definition valid_fused :: "FusedEmotions \<Rightarrow> bool" where
  "valid_fused f =
     (FusedEmotions.emotions f (FusedEmotions.primary f) \<noteq> None
      \<and> 0 \<le> FusedEmotions.confidence f \<and> FusedEmotions.confidence f \<le> 1)"

text \<open>The inputs of the safety-assessment calls of a trace, and its wearables calls.\<close>

fun safety_inputs :: "call list \<Rightarrow> SafetyPromptInput list" where
  "safety_inputs [] = []"
| "safety_inputs (SafetyAssessmentCall i # cs) = i # safety_inputs cs"
| "safety_inputs (c # cs) = safety_inputs cs"

fun response_inputs :: "call list \<Rightarrow> ResponsePromptInput list" where
  "response_inputs [] = []"
| "response_inputs (TherapeuticResponseCall i # cs) = i # response_inputs cs"
| "response_inputs (c # cs) = response_inputs cs"

fun wearables_inputs :: "call list \<Rightarrow> WearablesData list" where
  "wearables_inputs [] = []"
| "wearables_inputs (WearablesAnalysisCall i # cs) = i # wearables_inputs cs"
| "wearables_inputs (c # cs) = wearables_inputs cs"

text \<open>
  Sample environments.  In \<open>failingEnv\<close> every model call times out; in \<open>degradedEnv\<close>
  the two uncaught calls resolve, with no output; in \<open>respondingEnv\<close> the fusion, intent,
  context, safety and response prompts answer (the per-modality analysers still time out).
  \<^verbatim>\<open>JSON.stringify\<close> is replaced by a projection that keeps one field.
\<close>

definition failingEnv :: env where
  "failingEnv =
     \<lparr>facialEmotionPrompt = (\<lambda>i. Inl (Error ''timeout'')),
      voiceEmotionPrompt = (\<lambda>i. Inl (Error ''timeout'')),
      textEmotionPrompt = (\<lambda>i. Inl (Error ''timeout'')),
      multimodalFusionPrompt = (\<lambda>i. Inl (Error ''timeout'')),
      intentClassificationPrompt = (\<lambda>i. Inl (Error ''timeout'')),
      contextAnalysisPrompt = (\<lambda>i. Inl (Error ''timeout'')),
      safetyAssessmentPrompt = (\<lambda>i. Inl (Error ''timeout'')),
      therapeuticResponsePrompt = (\<lambda>i. Inl (Error ''timeout'')),
      fastTherapistPrompt = (\<lambda>i. Inl (Error ''timeout'')),
      wearablesAnalysisPrompt = (\<lambda>i. Inl (Error ''timeout'')),
      stringifyFacial = FacialEmotions.primary,
      stringifyVoice = VoiceEmotions.primary,
      stringifyText = TextEmotions.primary,
      stringifyFused = FusedEmotions.primary,
      stringifyEmotionAnalysis = (\<lambda>a. FusedEmotions.primary (fusedEmotions a)),
      stringifyGuidance = adaptivePrompt,
      stringifySafety = (\<lambda>s. case s of None \<Rightarrow> ''null'' | Some r \<Rightarrow> SafetyResult.riskLevel r),
      toLowerCase = asciiLowerCase,
      trim = asciiTrim\<rparr>"

definition degradedEnv :: env where
  "degradedEnv =
     failingEnv\<lparr>safetyAssessmentPrompt := (\<lambda>i. Inr None),
                therapeuticResponsePrompt := (\<lambda>i. Inr None)\<rparr>"

definition sampleFusion :: FusionResult where
  "sampleFusion =
     \<lparr>FusionResult.primary = ''sad'',
      FusionResult.confidence = 0,
      FusionResult.emotions = [''sad'' \<mapsto> 0.9],
      FusionResult.arousal = 0.4,
      FusionResult.valence = 0.2,
      FusionResult.distressLevel = 0,
      FusionResult.recommendations = [''Rest''],
      FusionResult.avatarExpression =
        \<lparr>AvatarExpression.expression = ''concerned'',
         AvatarExpression.intensity = 0,
         AvatarExpression.duration = 4\<rparr>\<rparr>"

definition unvalidatedFusion :: FusionResult where
  "unvalidatedFusion =
     sampleFusion\<lparr>FusionResult.primary := ''happy'', FusionResult.confidence := 7\<rparr>"

definition sampleIntent :: TherapeuticIntent where
  "sampleIntent =
     \<lparr>TherapeuticIntent.primary = ''depression_support'',
      secondary = [''emotional_support''],
      TherapeuticIntent.confidence = 0.9\<rparr>"

definition sampleGuidance :: ContextManagementOutput where
  "sampleGuidance =
     \<lparr>relevantContext = [],
      ContextManagementOutput.therapeuticIntent =
        \<lparr>TherapeuticIntent.primary = ''small_talk'', secondary = [],
         TherapeuticIntent.confidence = 0.4\<rparr>,
      responseStrategy =
        \<lparr>approach = ''supportive'', tone = ''warm'', techniques = [], avoidances = []\<rparr>,
      contextualFactors =
        \<lparr>ContextualFactors.emotionalState = ''sad'',
         ContextualFactors.urgencyLevel = ''high'',
         ContextualFactors.sessionPhase = ''intervention'',
         ContextualFactors.therapeuticAlliance = 55\<rparr>,
      knowledgeBaseMatches =
        [\<lparr>KnowledgeMatch.topic = ''Journaling'', KnowledgeMatch.content = ''Write it down'',
          KnowledgeMatch.relevanceScore = 0.1, KnowledgeMatch.category = ''model''\<rparr>],
      adaptivePrompt = ''Be gentle''\<rparr>"

definition sampleSafety :: SafetyResult where
  "sampleSafety =
     \<lparr>SafetyResult.riskLevel = ''critical'',
      SafetyResult.concerns = [''Imminent danger'', ''Hopelessness''],
      SafetyResult.actions = [''Call emergency services''],
      SafetyResult.followUp = False,
      urgentIntervention = True\<rparr>"

definition sampleResponse :: ResponseResult where
  "sampleResponse =
     \<lparr>ResponseResult.response = [],
      ResponseResult.interventions =
        \<lparr>Interventions.immediate = [''Breathe''], session = [''Talk''],
         Interventions.longTerm = [''Plan'']\<rparr>,
      ResponseResult.safetyAssessment =
        \<lparr>SafetyAssessment.riskLevel = ''low'', SafetyAssessment.concerns = [],
         SafetyAssessment.actions = [], SafetyAssessment.followUp = False\<rparr>\<rparr>"

definition respondingEnv :: env where
  "respondingEnv =
     failingEnv\<lparr>multimodalFusionPrompt := (\<lambda>i. Inr (Some sampleFusion)),
                intentClassificationPrompt := (\<lambda>i. Inr (Some sampleIntent)),
                contextAnalysisPrompt := (\<lambda>i. Inr (Some sampleGuidance)),
                safetyAssessmentPrompt := (\<lambda>i. Inr (Some sampleSafety)),
                therapeuticResponsePrompt := (\<lambda>i. Inr (Some sampleResponse))\<rparr>"

definition sampleTurn :: "string \<Rightarrow> string \<Rightarrow> ConversationTurn" where
  "sampleTurn who said =
     \<lparr>Turn.speaker = who, Turn.message = said, Turn.timestamp = ''2025-01-01T00:00:00.000Z'',
      ConversationTurn.emotions = None, ConversationTurn.intent = None\<rparr>"

definition sampleInput :: ComprehensiveMitrInput where
  "sampleInput =
     \<lparr>ComprehensiveMitrInput.userMessage = ''I feel sad'',
      ComprehensiveMitrInput.conversationHistory =
        Some [sampleTurn ''user'' ''one'', sampleTurn ''ai'' ''two'',
              sampleTurn ''user'' ''three'', sampleTurn ''ai'' ''four''],
      ComprehensiveMitrInput.imageData = None,
      ComprehensiveMitrInput.audioFeatures = None,
      wearablesData = None,
      ComprehensiveMitrInput.userProfile = None,
      sessionContext = None\<rparr>"

definition sampleWearables :: WearablesData where
  "sampleWearables =
     \<lparr>heartRate = Some \<lparr>current = Some 120, resting = Some 60, variability = None\<rparr>,
      sleep = None, activity = None,
      WearablesData.stress = Some \<lparr>level = Some 95\<rparr>,
      WearablesData.timestamp = ''2025-01-01T00:00:00.000Z''\<rparr>"

definition sampleContextInput :: ContextManagementInput where
  "sampleContextInput =
     \<lparr>currentMessage = ''I feel sad'',
      ContextManagementInput.conversationHistory = [sampleTurn ''user'' ''one''],
      ContextManagementInput.userProfile = None,
      emotionalContext = None,
      healthContext = None\<rparr>"

definition noModalityInput :: EmotionAnalysisInput where
  "noModalityInput =
     \<lparr>EmotionAnalysisInput.imageData = None,
      EmotionAnalysisInput.audioFeatures = None,
      EmotionAnalysisInput.textContent = None,
      EmotionAnalysisInput.conversationHistory = None\<rparr>"

definition sampleReply :: "string \<Rightarrow> FastMitrOutput" where
  "sampleReply risk =
     \<lparr>MitrOutput.response = ''I am here with you.'',
      MitrOutput.emotionAnalysis =
        \<lparr>EmotionSummary.primary = ''sad'', EmotionSummary.confidence = 0.9,
         EmotionSummary.distressLevel = 0.9, EmotionSummary.recommendations = []\<rparr>,
      MitrOutput.healthAnalysis =
        \<lparr>HealthSummary.wellnessScore = 75, HealthSummary.stressLevel = 35,
         HealthSummary.alerts = [], HealthSummary.recommendations = []\<rparr>,
      contextualInsights =
        \<lparr>ContextualInsights.therapeuticIntent = ''crisis_intervention'',
         ContextualInsights.urgencyLevel = ''critical'',
         ContextualInsights.sessionPhase = ''intervention'',
         ContextualInsights.therapeuticAlliance = 75\<rparr>,
      avatarControl =
        \<lparr>AvatarControl.expression = ''concerned'', AvatarControl.intensity = 0.9,
         AvatarControl.duration = 3, AvatarControl.emotionalState = ''attentive''\<rparr>,
      MitrOutput.interventions =
        \<lparr>Interventions.immediate = [], session = [], Interventions.longTerm = []\<rparr>,
      MitrOutput.safetyAssessment =
        \<lparr>SafetyAssessment.riskLevel = risk,
         SafetyAssessment.concerns = [''Imminent danger'', ''Hopelessness''],
         SafetyAssessment.actions = [], SafetyAssessment.followUp = True\<rparr>,
      metadata =
        \<lparr>analysisTimestamp = ''2025-01-01T00:00:01.000Z'', confidenceScore = 0.8,
         dataQuality = \<lparr>emotional = 0.7, health = 0.7, contextual = 0.7\<rparr>\<rparr>\<rparr>"

definition sampleFresh :: Fresh where
  "sampleFresh =
     \<lparr>userMessageId = ''u-1'', userMessageTime = ''2025-01-01T00:00:00.000Z'',
      flowTime = ''2025-01-01T00:00:00.500Z'', replyId = ''a-1'',
      replyTime = ''2025-01-01T00:00:01.000Z''\<rparr>"

definition sampleChat :: ChatState where
  "sampleChat =
     \<lparr>userInput = ''  I feel sad '', ChatState.conversationHistory = [], isLoading = False,
      isAnalyzing = False, error = None, toasts = []\<rparr>"

definition unvalidatedEnv :: env where
  "unvalidatedEnv = failingEnv\<lparr>multimodalFusionPrompt := (\<lambda>i. Inr (Some unvalidatedFusion))\<rparr>"

definition sampleAnalysis :: EmotionAnalysisOutput where
  "sampleAnalysis =
     \<lparr>facialEmotions = None, voiceEmotions = None, textEmotions = None,
      fusedEmotions =
        \<lparr>FusedEmotions.primary = ''sad'',
         FusedEmotions.confidence = 0,
         FusedEmotions.emotions = FusionResult.emotions sampleFusion,
         FusedEmotions.arousal = 0.4,
         FusedEmotions.valence = 0.2,
         FusedEmotions.distressLevel = 0\<rparr>,
      EmotionAnalysisOutput.recommendations = [''Rest''],
      EmotionAnalysisOutput.avatarExpression =
        \<lparr>AvatarExpression.expression = ''concerned'',
         AvatarExpression.intensity = 0,
         AvatarExpression.duration = 4\<rparr>\<rparr>"

definition unvalidatedAnalysis :: EmotionAnalysisOutput where
  "unvalidatedAnalysis =
     sampleAnalysis\<lparr>fusedEmotions :=
       (fusedEmotions sampleAnalysis)
         \<lparr>FusedEmotions.primary := ''happy'', FusedEmotions.confidence := 7\<rparr>\<rparr>"

definition sampleManaged :: ContextManagementOutput where
  "sampleManaged =
     sampleGuidance
       \<lparr>knowledgeBaseMatches :=
          [\<lparr>KnowledgeMatch.topic = ''Depression Support'',
            KnowledgeMatch.content =
              ''Validate feelings, encourage small steps, behavioral activation, hope instillation'',
            KnowledgeMatch.relevanceScore = 0.8,
            KnowledgeMatch.category = ''depression_support''\<rparr>],
        ContextManagementOutput.therapeuticIntent := sampleIntent\<rparr>"

text \<open>The health summary a run of the comprehensive flow returns, if it returns one.\<close>

definition healthSummaryOf ::
  "call list \<times> (error + ComprehensiveMitrOutput) \<Rightarrow> HealthSummary option" where
  "healthSummaryOf run = (case snd run of Inl e \<Rightarrow> None | Inr r \<Rightarrow> MitrOutput.healthAnalysis r)"

text \<open>The model calls of the emotion stage and of the context stage.\<close>

fun is_emotion_call :: "call \<Rightarrow> bool" where
  "is_emotion_call (FacialEmotionCall i) = True"
| "is_emotion_call (VoiceEmotionCall i) = True"
| "is_emotion_call (TextEmotionCall i) = True"
| "is_emotion_call (MultimodalFusionCall i) = True"
| "is_emotion_call c = False"

fun is_context_call :: "call \<Rightarrow> bool" where
  "is_context_call (IntentClassificationCall i) = True"
| "is_context_call (ContextAnalysisCall i) = True"
| "is_context_call c = False"

definition responseFailingEnv :: env where
  "responseFailingEnv = respondingEnv\<lparr>therapeuticResponsePrompt := (\<lambda>i. Inl (Error ''timeout''))\<rparr>"

definition nullTextEnv :: env where
  "nullTextEnv = respondingEnv\<lparr>textEmotionPrompt := (\<lambda>i. Inr None)\<rparr>"

definition textOnlyInput :: EmotionAnalysisInput where
  "textOnlyInput =
     \<lparr>EmotionAnalysisInput.imageData = None,
      EmotionAnalysisInput.audioFeatures = None,
      EmotionAnalysisInput.textContent = Some ''I feel sad'',
      EmotionAnalysisInput.conversationHistory = None\<rparr>"

definition sampleMerged :: ComprehensiveMitrOutput where
  "sampleMerged =
     compileResult ''now'' (Some sampleAnalysis) (Some (healthAnalysisStub 0))
       (Some sampleManaged) (Some sampleSafety) (Some sampleResponse)"

section \<open>Auxiliary facts\<close>

subsection \<open>Strings, sets and the knowledge matcher\<close>

lemma js_or_simps:
  "js_or t None d = d"
  "js_or t (Some v) d = (if t v then v else d)"
  by (simp_all add: js_or_def)

lemma js_or_default_iff:
  "js_or t x d = d \<longleftrightarrow> x = None \<or> (\<exists>v. x = Some v \<and> (\<not> t v \<or> v = d))"
  by (cases x) (auto simp: js_or_def)

lemma startsWith_iff: "startsWith s k \<longleftrightarrow> (\<exists>ss. s = k @ ss)"
  by (induction s k rule: startsWith.induct) auto

lemma includes_str_iff: "includes_str s k \<longleftrightarrow> (\<exists>ps ss. s = ps @ k @ ss)"
proof (induction s)
  case Nil
  show ?case by auto
next
  case (Cons c cs)
  show ?case
  proof
    assume "includes_str (c # cs) k"
    then consider "startsWith (c # cs) k" | "includes_str cs k" by auto
    then show "\<exists>ps ss. c # cs = ps @ k @ ss"
    proof cases
      case 1
      then obtain ss where "c # cs = k @ ss" using startsWith_iff by blast
      then have "c # cs = [] @ k @ ss" by simp
      then show ?thesis by blast
    next
      case 2
      then obtain ps ss where "cs = ps @ k @ ss" using Cons.IH by blast
      then have "c # cs = (c # ps) @ k @ ss" by simp
      then show ?thesis by blast
    qed
  next
    assume "\<exists>ps ss. c # cs = ps @ k @ ss"
    then obtain ps ss where e: "c # cs = ps @ k @ ss" by blast
    show "includes_str (c # cs) k"
    proof (cases ps)
      case Nil
      with e have "startsWith (c # cs) k" using startsWith_iff by auto
      then show ?thesis by simp
    next
      case (Cons p ps')
      with e have "cs = ps' @ k @ ss" by simp
      then have "includes_str cs k" using Cons.IH by blast
      then show ?thesis by simp
    qed
  qed
qed

lemma message_matches_iff:
  "item \<in> set (message_matches lower msg) \<longleftrightarrow>
     item \<in> set therapeuticKnowledgeBase
     \<and> (\<exists>keyword \<in> set (keywords_kb item). \<exists>ps ss. lower msg = ps @ keyword @ ss)"
  by (auto simp: message_matches_def list_ex_iff includes_str_iff)

lemma set_add_all_props:
  "distinct acc \<Longrightarrow> distinct (set_add_all acc xs) \<and> set (set_add_all acc xs) = set acc \<union> set xs"
  by (induction xs arbitrary: acc) auto

lemma distinct_array_from_set: "distinct (array_from_set xs)"
  by (simp add: array_from_set_def set_add_all_props)

lemma set_array_from_set: "set (array_from_set xs) = set xs"
  by (simp add: array_from_set_def set_add_all_props)

lemma set_add_all_distinct_id: "distinct (acc @ xs) \<Longrightarrow> set_add_all acc xs = acc @ xs"
  by (induction xs arbitrary: acc) auto

lemma distinct_therapeuticKnowledgeBase: "distinct therapeuticKnowledgeBase"
  by (simp add: therapeuticKnowledgeBase_def)

lemma length_therapeuticKnowledgeBase: "length therapeuticKnowledgeBase = 8"
  by (simp add: therapeuticKnowledgeBase_def)

lemma findRelevantKnowledge_throws_iff:
  "(\<exists>e. findRelevantKnowledge lower msg emo = Inl e) \<longleftrightarrow>
     (\<exists>label. emo = Some label \<and> label \<in> set objectPrototypeMembers)"
  by (auto simp: findRelevantKnowledge_def read_emotionKeywords_def Let_def truthy_string_def
        emotionKeywords_def objectPrototypeMembers_def
      split: option.splits if_splits property_read.splits)

lemma emotion_matches_Nil: "emotion_matches [] = []"
  by (simp add: emotion_matches_def)

lemma inherited_not_own:
  "label \<in> set objectPrototypeMembers \<Longrightarrow> map_of emotionKeywords label = None"
  by (auto simp: objectPrototypeMembers_def emotionKeywords_def)

lemma findRelevantKnowledge_cases:
  "findRelevantKnowledge lower msg emo =
     (if \<exists>label. emo = Some label \<and> label \<in> set objectPrototypeMembers
      then Inl (TypeError ''emotionKeys.some is not a function'')
      else Inr (take 5 (array_from_set
                  (message_matches lower msg
                   @ emotion_matches
                       (case Option.bind emo (map_of emotionKeywords) of
                          None \<Rightarrow> []
                        | Some ks \<Rightarrow> ks)))))"
proof (cases emo)
  case None
  then show ?thesis by (simp add: findRelevantKnowledge_def emotion_matches_Nil)
next
  case (Some label)
  show ?thesis
  proof (cases "label = []")
    case True
    with Some show ?thesis
      by (simp add: findRelevantKnowledge_def truthy_string_def emotion_matches_Nil
            emotionKeywords_def objectPrototypeMembers_def)
  next
    case False
    with Some show ?thesis
      by (auto simp: findRelevantKnowledge_def truthy_string_def read_emotionKeywords_def
            emotion_matches_Nil inherited_not_own split: option.splits)
  qed
qed

lemma findRelevantKnowledge_result:
  assumes "findRelevantKnowledge lower msg emo = Inr found"
  shows "length found \<le> 5 \<and> distinct found \<and> set found \<subseteq> set therapeuticKnowledgeBase"
proof -
  from assms obtain pushed where f: "found = take 5 (array_from_set pushed)"
    and p: "set pushed \<subseteq> set therapeuticKnowledgeBase"
    by (auto simp: findRelevantKnowledge_cases message_matches_def emotion_matches_def
          split: if_splits)
  have "set found \<subseteq> set (array_from_set pushed)" using f by (simp add: set_take_subset)
  with p show ?thesis using f by (auto simp: distinct_array_from_set set_array_from_set)
qed

subsection \<open>The calls a flow issues and what it returns\<close>

lemma safety_inputs_append: "safety_inputs (xs @ ys) = safety_inputs xs @ safety_inputs ys"
  by (induction xs rule: safety_inputs.induct) simp_all

lemma response_inputs_append: "response_inputs (xs @ ys) = response_inputs xs @ response_inputs ys"
  by (induction xs rule: response_inputs.induct) simp_all

lemma wearables_inputs_append: "wearables_inputs (xs @ ys) = wearables_inputs xs @ wearables_inputs ys"
  by (induction xs rule: wearables_inputs.induct) simp_all

lemma emotion_calls_only:
  "list_all is_emotion_call cs \<Longrightarrow>
     safety_inputs cs = [] \<and> response_inputs cs = [] \<and> wearables_inputs cs = []"
proof (induction cs)
  case Nil
  show ?case by simp
next
  case (Cons c cs)
  then show ?case by (cases c) simp_all
qed

lemma context_calls_only:
  "list_all is_context_call cs \<Longrightarrow>
     safety_inputs cs = [] \<and> response_inputs cs = [] \<and> wearables_inputs cs = []"
proof (induction cs)
  case Nil
  show ?case by simp
next
  case (Cons c cs)
  then show ?case by (cases c) simp_all
qed

lemma analyzeFacial_calls: "list_all is_emotion_call (fst (analyzeFacial env input))"
  by (simp add: analyzeFacial_def split: option.splits)

lemma analyzeVoice_calls: "list_all is_emotion_call (fst (analyzeVoice env input))"
  by (simp add: analyzeVoice_def split: option.splits)

lemma analyzeText_calls: "list_all is_emotion_call (fst (analyzeText env input))"
  by (simp add: analyzeText_def Let_def split: option.splits)

lemma emotionAnalysisFlow_calls:
  "fst (emotionAnalysisFlow env input) =
     fst (analyzeFacial env input) @ fst (analyzeVoice env input) @ fst (analyzeText env input)
     @ [MultimodalFusionCall
          (fusionInput env (snd (analyzeFacial env input)) (snd (analyzeVoice env input))
             (snd (analyzeText env input)))]"
  by (simp add: emotionAnalysisFlow_def Let_def case_prod_beta split: sum.splits option.splits)

lemma emotionAnalysisFlow_result:
  "snd (emotionAnalysisFlow env input) =
     (case multimodalFusionPrompt env
             (fusionInput env (snd (analyzeFacial env input)) (snd (analyzeVoice env input))
                (snd (analyzeText env input))) of
        Inl e \<Rightarrow> Inl e
      | Inr None \<Rightarrow> Inl (TypeError ''Cannot read properties of null'')
      | Inr (Some f) \<Rightarrow>
          if snd (analyzeFacial env input) = AssignedNull
             \<or> snd (analyzeVoice env input) = AssignedNull
             \<or> snd (analyzeText env input) = AssignedNull
          then Inl (ValidationError ''Schema validation failed'')
          else
            Inr \<lparr>facialEmotions = assigned_value (snd (analyzeFacial env input)),
                 voiceEmotions = assigned_value (snd (analyzeVoice env input)),
                 textEmotions = assigned_value (snd (analyzeText env input)),
                 fusedEmotions =
                   \<lparr>FusedEmotions.primary = FusionResult.primary f,
                    FusedEmotions.confidence = FusionResult.confidence f,
                    FusedEmotions.emotions = FusionResult.emotions f,
                    FusedEmotions.arousal = FusionResult.arousal f,
                    FusedEmotions.valence = FusionResult.valence f,
                    FusedEmotions.distressLevel = FusionResult.distressLevel f\<rparr>,
                 EmotionAnalysisOutput.recommendations = FusionResult.recommendations f,
                 EmotionAnalysisOutput.avatarExpression = FusionResult.avatarExpression f\<rparr>)"
  by (simp add: emotionAnalysisFlow_def Let_def case_prod_beta split: sum.splits option.splits)

text \<open>An analyser's result is \<^verbatim>\<open>null\<close> exactly when its prompt was called and resolved
  without output.\<close>

lemma analyzeFacial_null_iff:
  "snd (analyzeFacial env input) = AssignedNull \<longleftrightarrow>
     (\<exists>i. FacialEmotionCall i \<in> set (fst (analyzeFacial env input))
          \<and> facialEmotionPrompt env i = Inr None)"
  by (auto simp: analyzeFacial_def split: option.splits sum.splits)

lemma analyzeVoice_null_iff:
  "snd (analyzeVoice env input) = AssignedNull \<longleftrightarrow>
     (\<exists>i. VoiceEmotionCall i \<in> set (fst (analyzeVoice env input))
          \<and> voiceEmotionPrompt env i = Inr None)"
  by (auto simp: analyzeVoice_def split: option.splits sum.splits)

lemma analyzeText_null_iff:
  "snd (analyzeText env input) = AssignedNull \<longleftrightarrow>
     (\<exists>i. TextEmotionCall i \<in> set (fst (analyzeText env input))
          \<and> textEmotionPrompt env i = Inr None)"
  by (auto simp: analyzeText_def Let_def split: option.splits sum.splits)

lemma analyzer_calls_disjoint:
  "FacialEmotionCall i \<notin> set (fst (analyzeVoice env input))"
  "FacialEmotionCall i \<notin> set (fst (analyzeText env input))"
  "VoiceEmotionCall j \<notin> set (fst (analyzeFacial env input))"
  "VoiceEmotionCall j \<notin> set (fst (analyzeText env input))"
  "TextEmotionCall k \<notin> set (fst (analyzeFacial env input))"
  "TextEmotionCall k \<notin> set (fst (analyzeVoice env input))"
  by (simp_all add: analyzeFacial_def analyzeVoice_def analyzeText_def Let_def
      split: option.splits)

lemma null_result_iff_null_call:
  "(snd (analyzeFacial env input) = AssignedNull
      \<or> snd (analyzeVoice env input) = AssignedNull
      \<or> snd (analyzeText env input) = AssignedNull) \<longleftrightarrow>
   ((\<exists>i. FacialEmotionCall i
            \<in> set (fst (analyzeFacial env input) @ fst (analyzeVoice env input)
                    @ fst (analyzeText env input))
          \<and> facialEmotionPrompt env i = Inr None)
    \<or> (\<exists>i. VoiceEmotionCall i
            \<in> set (fst (analyzeFacial env input) @ fst (analyzeVoice env input)
                    @ fst (analyzeText env input))
          \<and> voiceEmotionPrompt env i = Inr None)
    \<or> (\<exists>i. TextEmotionCall i
            \<in> set (fst (analyzeFacial env input) @ fst (analyzeVoice env input)
                    @ fst (analyzeText env input))
          \<and> textEmotionPrompt env i = Inr None))"
  by (simp add: analyzeFacial_null_iff analyzeVoice_null_iff analyzeText_null_iff
        analyzer_calls_disjoint)

lemma analyzeEmotions_calls: "list_all is_emotion_call (fst (analyzeEmotions env input))"
  by (simp add: analyzeEmotions_def emotionAnalysisFlow_calls analyzeFacial_calls
        analyzeVoice_calls analyzeText_calls)

lemma manageContext_calls: "list_all is_context_call (fst (manageContext env input))"
  by (simp add: manageContext_def contextManagementFlow_def Let_def
      split: option.splits sum.splits)

lemma step1_calls: "list_all is_emotion_call (fst (step1_emotionAnalysis env input))"
  by (simp add: step1_emotionAnalysis_def case_prod_beta analyzeEmotions_calls)

lemma step3_calls: "list_all is_context_call (fst (step3_contextualGuidance env input ea ha))"
  by (simp add: step3_contextualGuidance_def case_prod_beta manageContext_calls)

lemma comprehensiveMitrFlow_calls:
  "fst (comprehensiveMitrFlow env now random input) =
     fst (step1_emotionAnalysis env input)
     @ fst (step3_contextualGuidance env input (snd (step1_emotionAnalysis env input))
              (Some (healthAnalysisStub random)))
     @ SafetyAssessmentCall (safetyInput env input (snd (step1_emotionAnalysis env input)))
     # (case safetyAssessmentPrompt env
               (safetyInput env input (snd (step1_emotionAnalysis env input))) of
          Inl e \<Rightarrow> []
        | Inr safetyOutput \<Rightarrow>
            [TherapeuticResponseCall
               (responseInput env input (snd (step1_emotionAnalysis env input))
                  (snd (step3_contextualGuidance env input (snd (step1_emotionAnalysis env input))
                          (Some (healthAnalysisStub random))))
                  safetyOutput)])"
  by (simp add: comprehensiveMitrFlow_def Let_def case_prod_beta split: sum.splits)

lemma comprehensiveMitrFlow_result:
  "snd (comprehensiveMitrFlow env now random input) =
     (case safetyAssessmentPrompt env
             (safetyInput env input (snd (step1_emotionAnalysis env input))) of
        Inl e \<Rightarrow> Inl e
      | Inr safetyOutput \<Rightarrow>
          (case therapeuticResponsePrompt env
                  (responseInput env input (snd (step1_emotionAnalysis env input))
                     (snd (step3_contextualGuidance env input
                             (snd (step1_emotionAnalysis env input))
                             (Some (healthAnalysisStub random))))
                     safetyOutput) of
             Inl e \<Rightarrow> Inl e
           | Inr responseOutput \<Rightarrow>
               Inr (compileResult now (snd (step1_emotionAnalysis env input))
                      (Some (healthAnalysisStub random))
                      (snd (step3_contextualGuidance env input
                              (snd (step1_emotionAnalysis env input))
                              (Some (healthAnalysisStub random))))
                      safetyOutput responseOutput)))"
  by (simp add: comprehensiveMitrFlow_def Let_def case_prod_beta split: sum.splits)

lemma comprehensiveMitrFlow_safety_inputs:
  "safety_inputs (fst (comprehensiveMitrFlow env now random input)) =
     [safetyInput env input (snd (step1_emotionAnalysis env input))]"
  by (simp add: comprehensiveMitrFlow_calls safety_inputs_append
        emotion_calls_only [OF step1_calls] context_calls_only [OF step3_calls]
      split: sum.splits)

lemma comprehensiveMitrFlow_response_inputs:
  "response_inputs (fst (comprehensiveMitrFlow env now random input)) =
     (case safetyAssessmentPrompt env
             (safetyInput env input (snd (step1_emotionAnalysis env input))) of
        Inl e \<Rightarrow> []
      | Inr safetyOutput \<Rightarrow>
          [responseInput env input (snd (step1_emotionAnalysis env input))
             (snd (step3_contextualGuidance env input (snd (step1_emotionAnalysis env input))
                     (Some (healthAnalysisStub random))))
             safetyOutput])"
  by (simp add: comprehensiveMitrFlow_calls response_inputs_append
        emotion_calls_only [OF step1_calls] context_calls_only [OF step3_calls]
      split: sum.splits)

lemma comprehensiveMitrFlow_wearables_inputs:
  "wearables_inputs (fst (comprehensiveMitrFlow env now random input)) = []"
  by (simp add: comprehensiveMitrFlow_calls wearables_inputs_append
        emotion_calls_only [OF step1_calls] context_calls_only [OF step3_calls]
      split: sum.splits)

lemma avatarControl_presence_test:
  "avatarControl (compileResult t None h g so ro) =
     \<lparr>AvatarControl.expression = ''empathetic'', AvatarControl.intensity = 0.7,
      AvatarControl.duration = 5, AvatarControl.emotionalState = ''supportive''\<rparr>"
  "avatarControl (compileResult t (Some a) h g so ro) =
     \<lparr>AvatarControl.expression =
        AvatarExpression.expression (EmotionAnalysisOutput.avatarExpression a),
      AvatarControl.intensity =
        AvatarExpression.intensity (EmotionAnalysisOutput.avatarExpression a),
      AvatarControl.duration =
        AvatarExpression.duration (EmotionAnalysisOutput.avatarExpression a),
      AvatarControl.emotionalState = ''supportive''\<rparr>"
  by (simp_all add: compileResult_def)

lemma healthSummary_compileResult:
  "MitrOutput.healthAnalysis (compileResult t ea (Some (healthAnalysisStub random)) g so ro) =
     Some \<lparr>HealthSummary.wellnessScore = 75 + of_int \<lfloor>random * 15\<rfloor>,
            HealthSummary.stressLevel = 35,
            HealthSummary.alerts = [],
            HealthSummary.recommendations = [''Take a deep breath'', ''Stay hydrated'']\<rparr>"
  by (simp add: compileResult_def healthAnalysisStub_def)

subsection \<open>The fast flow under the chat interface\<close>

lemma fastMitrFlow_riskLevel:
  "snd (fastMitrFlow env now input) = Inr out \<Longrightarrow>
     SafetyAssessment.riskLevel (MitrOutput.safetyAssessment out) = ''low''"
  by (auto simp: fastMitrFlow_def Let_def split: sum.splits)

lemma handleSendMessage_raises_no_toast:
  "toasts (snd (handleSendMessage env fresh st)) = toasts st"
proof (cases "\<not> truthy_string (trim env (userInput st)) \<or> isLoading st")
  case True
  then show ?thesis by (simp add: handleSendMessage_def)
next
  case False
  then show ?thesis
    by (auto simp: handleSendMessage_def Let_def case_prod_beta processFastMitrRequest_def
          showResponse_def
        split: sum.splits dest: fastMitrFlow_riskLevel)
qed

subsection \<open>The flows in the sample environments\<close>

lemma analyzeEmotions_respondingEnv_sample:
  "snd (analyzeEmotions respondingEnv (emotionInput sampleInput)) = Inr sampleAnalysis"
  by (simp add: analyzeEmotions_def emotionAnalysisFlow_result respondingEnv_def failingEnv_def
        sampleFusion_def sampleAnalysis_def emotionInput_def sampleInput_def
        analyzeFacial_def analyzeVoice_def analyzeText_def Let_def truthy_string_def)

lemma step1_failingEnv_sample: "snd (step1_emotionAnalysis failingEnv sampleInput) = None"
  by (simp add: step1_emotionAnalysis_def case_prod_beta analyzeEmotions_def
        emotionAnalysisFlow_result failingEnv_def)

lemma step1_respondingEnv_sample:
  "snd (step1_emotionAnalysis respondingEnv sampleInput) = Some sampleAnalysis"
  by (simp add: step1_emotionAnalysis_def case_prod_beta analyzeEmotions_respondingEnv_sample)

lemma comprehensiveMitrFlow_degradedEnv_sample:
  "snd (comprehensiveMitrFlow degradedEnv now random sampleInput) =
     Inr (compileResult now None (Some (healthAnalysisStub random)) None None None)"
proof -
  have a: "snd (step1_emotionAnalysis degradedEnv sampleInput) = None"
    by (simp add: step1_emotionAnalysis_def case_prod_beta analyzeEmotions_def
          emotionAnalysisFlow_result degradedEnv_def failingEnv_def)
  have b: "snd (step3_contextualGuidance degradedEnv sampleInput None ha) = None" for ha
    by (simp add: step3_contextualGuidance_def case_prod_beta manageContext_def
          contextManagementFlow_def Let_def degradedEnv_def failingEnv_def)
  have c: "safetyAssessmentPrompt degradedEnv i = Inr None" for i
    by (simp add: degradedEnv_def)
  have d: "therapeuticResponsePrompt degradedEnv j = Inr None" for j
    by (simp add: degradedEnv_def)
  show ?thesis
    by (simp add: comprehensiveMitrFlow_result a b c d)
qed

lemma message_matches_sample:
  "message_matches asciiLowerCase ''I feel sad'' =
     [\<lparr>KnowledgeEntry.topic = ''Depression Support'',
       KnowledgeEntry.content =
         ''Validate feelings, encourage small steps, behavioral activation, hope instillation'',
       KnowledgeEntry.category = ''depression_support'',
       keywords_kb = [''depression'', ''sad'', ''hopeless'', ''empty'', ''worthless'', ''tired'']\<rparr>]"
  by (simp add: message_matches_def therapeuticKnowledgeBase_def asciiLowerCase_def
        toLowerChar_def)

lemma emotion_matches_sad:
  "emotion_matches [''depression'', ''sad'', ''hopeless''] =
     [\<lparr>KnowledgeEntry.topic = ''Depression Support'',
       KnowledgeEntry.content =
         ''Validate feelings, encourage small steps, behavioral activation, hope instillation'',
       KnowledgeEntry.category = ''depression_support'',
       keywords_kb = [''depression'', ''sad'', ''hopeless'', ''empty'', ''worthless'', ''tired'']\<rparr>]"
  by (simp add: emotion_matches_def therapeuticKnowledgeBase_def)

lemma findRelevantKnowledge_sample:
  "findRelevantKnowledge asciiLowerCase ''I feel sad'' None =
     Inr [\<lparr>KnowledgeEntry.topic = ''Depression Support'',
       KnowledgeEntry.content =
         ''Validate feelings, encourage small steps, behavioral activation, hope instillation'',
       KnowledgeEntry.category = ''depression_support'',
       keywords_kb = [''depression'', ''sad'', ''hopeless'', ''empty'', ''worthless'', ''tired'']\<rparr>]"
  "findRelevantKnowledge asciiLowerCase ''I feel sad'' (Some ''sad'') =
     Inr [\<lparr>KnowledgeEntry.topic = ''Depression Support'',
       KnowledgeEntry.content =
         ''Validate feelings, encourage small steps, behavioral activation, hope instillation'',
       KnowledgeEntry.category = ''depression_support'',
       keywords_kb = [''depression'', ''sad'', ''hopeless'', ''empty'', ''worthless'', ''tired'']\<rparr>]"
  by (simp_all add: findRelevantKnowledge_cases objectPrototypeMembers_def emotionKeywords_def
        message_matches_sample emotion_matches_sad emotion_matches_Nil array_from_set_def)

lemma manageContext_respondingEnv:
  assumes "currentMessage cm = ''I feel sad''"
    and "Option.bind (emotionalContext cm) currentEmotion \<in> {None, Some ''sad''}"
  shows "snd (manageContext respondingEnv cm) = Inr sampleManaged"
proof -
  have i: "intentClassificationPrompt respondingEnv ii = Inr (Some sampleIntent)" for ii
    by (simp add: respondingEnv_def)
  have c: "contextAnalysisPrompt respondingEnv ci = Inr (Some sampleGuidance)" for ci
    by (simp add: respondingEnv_def)
  have l: "toLowerCase respondingEnv = asciiLowerCase"
    by (simp add: respondingEnv_def failingEnv_def)
  from assms(2) have k: "findRelevantKnowledge asciiLowerCase ''I feel sad''
      (Option.bind (emotionalContext cm) currentEmotion) =
     Inr [\<lparr>KnowledgeEntry.topic = ''Depression Support'',
       KnowledgeEntry.content =
         ''Validate feelings, encourage small steps, behavioral activation, hope instillation'',
       KnowledgeEntry.category = ''depression_support'',
       keywords_kb = [''depression'', ''sad'', ''hopeless'', ''empty'', ''worthless'', ''tired'']\<rparr>]"
    using findRelevantKnowledge_sample by auto
  show ?thesis
    by (simp add: manageContext_def contextManagementFlow_def Let_def i c l assms(1) k
          sampleManaged_def)
qed

lemma step3_respondingEnv_sample:
  "snd (step3_contextualGuidance respondingEnv sampleInput (Some sampleAnalysis) ha)
     = Some sampleManaged"
proof -
  have "snd (manageContext respondingEnv (contextInput sampleInput (Some sampleAnalysis) ha))
          = Inr sampleManaged"
    by (rule manageContext_respondingEnv)
       (simp_all add: contextInput_def sampleInput_def sampleAnalysis_def)
  then show ?thesis by (simp add: step3_contextualGuidance_def case_prod_beta)
qed

lemma comprehensiveMitrFlow_respondingEnv_sample:
  "snd (comprehensiveMitrFlow respondingEnv ''now'' 0 sampleInput) = Inr sampleMerged"
proof -
  have c: "safetyAssessmentPrompt respondingEnv i = Inr (Some sampleSafety)" for i
    by (simp add: respondingEnv_def)
  have d: "therapeuticResponsePrompt respondingEnv j = Inr (Some sampleResponse)" for j
    by (simp add: respondingEnv_def)
  show ?thesis
    by (simp add: comprehensiveMitrFlow_result step1_respondingEnv_sample
          step3_respondingEnv_sample c d sampleMerged_def)
qed

lemma analyzers_noModalityInput:
  "analyzeFacial env noModalityInput = ([], Unassigned)"
  "analyzeVoice env noModalityInput = ([], Unassigned)"
  "analyzeText env noModalityInput = ([], Unassigned)"
  by (simp_all add: analyzeFacial_def analyzeVoice_def analyzeText_def noModalityInput_def)


section \<open>The claims\<close>

text \<open>
  C1.  For every reply \<open>aiOutput\<close> that the chat interface consumes, the handler raises the
  destructive toast (titled with the upper-cased risk level, listing the concerns) exactly
  when \<open>safetyAssessment.riskLevel\<close> is the string \<open>critical\<close>; for every other risk level
  the list of toasts is unchanged.
\<close>

theorem critical_alert_iff:
  "toasts (showResponse fresh aiOutput st) =
     toasts st @
     (if SafetyAssessment.riskLevel (MitrOutput.safetyAssessment aiOutput) = ''critical''
      then [\<lparr>variant = ''destructive'',
             title = ''CRITICAL Risk Detected'',
             description =
               join '', '' (SafetyAssessment.concerns (MitrOutput.safetyAssessment aiOutput))\<rparr>]
      else [])"
  by (simp add: showResponse_def Let_def toUpperCase_def toUpperChar_def)

text \<open>C1 at three replies: \<open>critical\<close> raises the toast, \<open>high\<close> and \<open>Critical\<close> do not.\<close>

theorem critical_alert_iff_witness:
  "toasts (showResponse sampleFresh (sampleReply ''critical'') sampleChat) =
     [\<lparr>variant = ''destructive'', title = ''CRITICAL Risk Detected'',
       description = ''Imminent danger, Hopelessness''\<rparr>]
   \<and> toasts (showResponse sampleFresh (sampleReply ''high'') sampleChat) = []
   \<and> toasts (showResponse sampleFresh (sampleReply ''Critical'') sampleChat) = []"
  using critical_alert_iff [of sampleFresh "sampleReply ''critical''" sampleChat]
    critical_alert_iff [of sampleFresh "sampleReply ''high''" sampleChat]
    critical_alert_iff [of sampleFresh "sampleReply ''Critical''" sampleChat]
  by (simp add: sampleReply_def sampleChat_def)

text \<open>
  C2.  Two runs of the comprehensive flow whose inputs differ only in \<open>wearablesData\<close> (and
  whose health stubs may differ) send the same input to the safety-assessment prompt, once:
  the user message, the serialised fused emotions of the emotion stage or the text
  \<open>No emotion data\<close>, no \<open>healthData\<close>, and the last three turns of the history.
\<close>

theorem safety_input_excludes_health:
  "safety_inputs (fst (comprehensiveMitrFlow env now random' (input\<lparr>wearablesData := w\<rparr>))) =
     safety_inputs (fst (comprehensiveMitrFlow env now random input))
   \<and> safety_inputs (fst (comprehensiveMitrFlow env now random input)) =
       [\<lparr>SafetyPromptInput.userMessage = ComprehensiveMitrInput.userMessage input,
         emotionData =
           (case snd (analyzeEmotions env (emotionInput input)) of
              Inl e \<Rightarrow> ''No emotion data''
            | Inr a \<Rightarrow> stringifyFused env (fusedEmotions a)),
         healthData = None,
         SafetyPromptInput.conversationHistory =
           map_option (\<lambda>history. join newline (map turn_line (slice_last 3 history)))
             (ComprehensiveMitrInput.conversationHistory input)\<rparr>]"
  by (simp add: comprehensiveMitrFlow_safety_inputs safetyInput_def step1_emotionAnalysis_def
        emotionInput_def case_prod_beta split: sum.splits)

text \<open>C2 at a sample input with wearables data set and four turns of history.\<close>

theorem safety_input_excludes_health_witness:
  "safety_inputs (fst (comprehensiveMitrFlow respondingEnv ''now'' (1/2)
       (sampleInput\<lparr>wearablesData := Some sampleWearables\<rparr>))) =
     [\<lparr>SafetyPromptInput.userMessage = ''I feel sad'',
       emotionData = ''sad'',
       healthData = None,
       SafetyPromptInput.conversationHistory =
         Some (join newline [''ai: two'', ''user: three'', ''ai: four''])\<rparr>]"
proof -
  note w = safety_input_excludes_health
             [where env = respondingEnv and now = "''now''" and random' = "1/2" and random = 0
                and input = sampleInput and w = "Some sampleWearables"]
  note run = trans [OF conjunct1 [OF w] conjunct2 [OF w]]
  show ?thesis
    unfolding run analyzeEmotions_respondingEnv_sample
    by (simp add: sampleAnalysis_def respondingEnv_def failingEnv_def sampleInput_def
          slice_last_def turn_line_def sampleTurn_def)
qed

text \<open>
  C3.  In every run of the comprehensive flow, an error thrown by the safety-assessment
  call, or by the response-generation call, is the result of the flow: it is not caught and
  no value is put in its place.  After a failed safety call no response call is issued.
\<close>

theorem uncaught_stage_errors_propagate:
  "(i \<in> set (safety_inputs (fst (comprehensiveMitrFlow env now random input)))
      \<and> safetyAssessmentPrompt env i = Inl e
    \<longrightarrow> snd (comprehensiveMitrFlow env now random input) = Inl e
        \<and> response_inputs (fst (comprehensiveMitrFlow env now random input)) = [])
   \<and> (j \<in> set (response_inputs (fst (comprehensiveMitrFlow env now random input)))
      \<and> therapeuticResponsePrompt env j = Inl e
    \<longrightarrow> snd (comprehensiveMitrFlow env now random input) = Inl e)"
  by (auto simp: comprehensiveMitrFlow_safety_inputs comprehensiveMitrFlow_response_inputs
        comprehensiveMitrFlow_result split: sum.splits)

text \<open>C3 where every call times out, and where only the response call does.\<close>

theorem uncaught_stage_errors_propagate_witness:
  "safetyInput failingEnv sampleInput None
       \<in> set (safety_inputs (fst (comprehensiveMitrFlow failingEnv ''now'' 0 sampleInput)))
   \<and> safetyAssessmentPrompt failingEnv (safetyInput failingEnv sampleInput None)
       = Inl (Error ''timeout'')
   \<and> snd (comprehensiveMitrFlow failingEnv ''now'' 0 sampleInput) = Inl (Error ''timeout'')
   \<and> response_inputs (fst (comprehensiveMitrFlow failingEnv ''now'' 0 sampleInput)) = []
   \<and> response_inputs (fst (comprehensiveMitrFlow responseFailingEnv ''now'' 0 sampleInput)) \<noteq> []
   \<and> therapeuticResponsePrompt responseFailingEnv
         (hd (response_inputs (fst (comprehensiveMitrFlow responseFailingEnv ''now'' 0 sampleInput))))
       = Inl (Error ''timeout'')
   \<and> snd (comprehensiveMitrFlow responseFailingEnv ''now'' 0 sampleInput) = Inl (Error ''timeout'')"
proof -
  have a: "safetyInput failingEnv sampleInput None
             \<in> set (safety_inputs (fst (comprehensiveMitrFlow failingEnv ''now'' 0 sampleInput)))"
    by (simp add: comprehensiveMitrFlow_safety_inputs step1_failingEnv_sample)
  have b: "safetyAssessmentPrompt failingEnv (safetyInput failingEnv sampleInput None)
             = Inl (Error ''timeout'')"
    by (simp add: failingEnv_def)
  have c: "safetyAssessmentPrompt responseFailingEnv i = Inr (Some sampleSafety)" for i
    by (simp add: responseFailingEnv_def respondingEnv_def)
  have d: "therapeuticResponsePrompt responseFailingEnv j = Inl (Error ''timeout'')" for j
    by (simp add: responseFailingEnv_def)
  have e: "response_inputs (fst (comprehensiveMitrFlow responseFailingEnv ''now'' 0 sampleInput)) \<noteq> []"
    by (simp add: comprehensiveMitrFlow_response_inputs c)
  then have f: "hd (response_inputs (fst (comprehensiveMitrFlow responseFailingEnv ''now'' 0 sampleInput)))
      \<in> set (response_inputs (fst (comprehensiveMitrFlow responseFailingEnv ''now'' 0 sampleInput)))"
    by simp
  from a b uncaught_stage_errors_propagate
         [where env = failingEnv and now = "''now''" and random = 0 and input = sampleInput
            and i = "safetyInput failingEnv sampleInput None" and e = "Error ''timeout''"]
  have g: "snd (comprehensiveMitrFlow failingEnv ''now'' 0 sampleInput) = Inl (Error ''timeout'')
           \<and> response_inputs (fst (comprehensiveMitrFlow failingEnv ''now'' 0 sampleInput)) = []"
    by blast
  from f d uncaught_stage_errors_propagate
         [where env = responseFailingEnv and now = "''now''" and random = 0
            and input = sampleInput
            and j = "hd (response_inputs (fst (comprehensiveMitrFlow responseFailingEnv ''now'' 0 sampleInput)))"
            and e = "Error ''timeout''"]
  have h: "snd (comprehensiveMitrFlow responseFailingEnv ''now'' 0 sampleInput) = Inl (Error ''timeout'')"
    by blast
  from a b g e d h show ?thesis by blast
qed

text \<open>
  C4, as stated, fails on the code.  With no modality signal at all the flow still depends
  on the fusion call: when that call times out the error reaches the caller, and when it
  answers with a primary label outside its emotions map and a confidence of 7 the flow
  returns that record as it is.
\<close>

theorem fusion_unvalidated_counterexample:
  "snd (analyzeEmotions failingEnv noModalityInput) = Inl (Error ''timeout'')
   \<and> snd (analyzeEmotions unvalidatedEnv noModalityInput) = Inr unvalidatedAnalysis
   \<and> \<not> valid_fused (fusedEmotions unvalidatedAnalysis)
   \<and> FusedEmotions.confidence (fusedEmotions unvalidatedAnalysis) = 7"
proof -
  have a: "multimodalFusionPrompt failingEnv i = Inl (Error ''timeout'')" for i
    by (simp add: failingEnv_def)
  have b: "multimodalFusionPrompt unvalidatedEnv i = Inr (Some unvalidatedFusion)" for i
    by (simp add: unvalidatedEnv_def)
  have "snd (analyzeEmotions failingEnv noModalityInput) = Inl (Error ''timeout'')"
    by (simp add: analyzeEmotions_def emotionAnalysisFlow_result a)
  moreover have "snd (analyzeEmotions unvalidatedEnv noModalityInput) = Inr unvalidatedAnalysis"
    by (simp add: analyzeEmotions_def emotionAnalysisFlow_result b analyzers_noModalityInput)
       (simp add: unvalidatedFusion_def unvalidatedAnalysis_def sampleAnalysis_def
          sampleFusion_def)
  moreover have "\<not> valid_fused (fusedEmotions unvalidatedAnalysis)"
    "FusedEmotions.confidence (fusedEmotions unvalidatedAnalysis) = 7"
    by (simp_all add: valid_fused_def unvalidatedAnalysis_def sampleAnalysis_def sampleFusion_def)
  ultimately show ?thesis by blast
qed

text \<open>
  C4, amended.  For every emotion-analysis input the fusion prompt is the last call issued,
  and with no modality signal the only one, sent with all three data fields absent.  An
  error of that call, or an output of \<open>null\<close>, surfaces to the caller.  When the call gives
  an output and no analyser call of the run resolved with a \<open>null\<close> output, the output is
  copied into the result unchanged, so the fused record is valid exactly when the model's
  output is; the flow applies no defaults and no range check.  When an analyser call did
  resolve with \<open>null\<close>, the result does not parse against the flow's output schema and a
  validation error surfaces instead.
\<close>

theorem fusion_output_passed_through:
  "\<exists>calls fusionIn.
      fst (analyzeEmotions env input) = calls @ [MultimodalFusionCall fusionIn]
    \<and> (EmotionAnalysisInput.imageData input = None
         \<and> EmotionAnalysisInput.audioFeatures input = None
         \<and> EmotionAnalysisInput.textContent input = None
       \<longrightarrow> calls = []
           \<and> fusionIn = \<lparr>facialData = None, voiceData = None, textData = None\<rparr>)
    \<and> (\<forall>e. multimodalFusionPrompt env fusionIn = Inl e
           \<longrightarrow> snd (analyzeEmotions env input) = Inl e)
    \<and> (multimodalFusionPrompt env fusionIn = Inr None
           \<longrightarrow> isl (snd (analyzeEmotions env input)))
    \<and> (\<forall>f. multimodalFusionPrompt env fusionIn = Inr (Some f)
           \<longrightarrow> (if (\<exists>i. FacialEmotionCall i \<in> set calls
                          \<and> facialEmotionPrompt env i = Inr None)
                    \<or> (\<exists>i. VoiceEmotionCall i \<in> set calls
                          \<and> voiceEmotionPrompt env i = Inr None)
                    \<or> (\<exists>i. TextEmotionCall i \<in> set calls
                          \<and> textEmotionPrompt env i = Inr None)
                 then snd (analyzeEmotions env input)
                        = Inl (ValidationError ''Schema validation failed'')
                 else (\<exists>r. snd (analyzeEmotions env input) = Inr r
                        \<and> fusedEmotions r =
                            \<lparr>FusedEmotions.primary = FusionResult.primary f,
                             FusedEmotions.confidence = FusionResult.confidence f,
                             FusedEmotions.emotions = FusionResult.emotions f,
                             FusedEmotions.arousal = FusionResult.arousal f,
                             FusedEmotions.valence = FusionResult.valence f,
                             FusedEmotions.distressLevel = FusionResult.distressLevel f\<rparr>
                        \<and> EmotionAnalysisOutput.recommendations r
                            = FusionResult.recommendations f
                        \<and> EmotionAnalysisOutput.avatarExpression r
                            = FusionResult.avatarExpression f
                        \<and> (valid_fused (fusedEmotions r) \<longleftrightarrow>
                             FusionResult.emotions f (FusionResult.primary f) \<noteq> None
                             \<and> 0 \<le> FusionResult.confidence f
                             \<and> FusionResult.confidence f \<le> 1))))"
proof (intro exI conjI)
  show "fst (analyzeEmotions env input) =
      (fst (analyzeFacial env input) @ fst (analyzeVoice env input) @ fst (analyzeText env input))
      @ [MultimodalFusionCall
           (fusionInput env (snd (analyzeFacial env input)) (snd (analyzeVoice env input))
              (snd (analyzeText env input)))]"
    by (simp add: analyzeEmotions_def emotionAnalysisFlow_calls)
  show "EmotionAnalysisInput.imageData input = None
         \<and> EmotionAnalysisInput.audioFeatures input = None
         \<and> EmotionAnalysisInput.textContent input = None
       \<longrightarrow> fst (analyzeFacial env input) @ fst (analyzeVoice env input)
             @ fst (analyzeText env input) = []
           \<and> fusionInput env (snd (analyzeFacial env input)) (snd (analyzeVoice env input))
                (snd (analyzeText env input))
              = \<lparr>facialData = None, voiceData = None, textData = None\<rparr>"
    by (simp add: analyzeFacial_def analyzeVoice_def analyzeText_def fusionInput_def)
  show "\<forall>e. multimodalFusionPrompt env
               (fusionInput env (snd (analyzeFacial env input)) (snd (analyzeVoice env input))
                  (snd (analyzeText env input))) = Inl e
           \<longrightarrow> snd (analyzeEmotions env input) = Inl e"
    by (simp add: analyzeEmotions_def emotionAnalysisFlow_result)
  show "multimodalFusionPrompt env
               (fusionInput env (snd (analyzeFacial env input)) (snd (analyzeVoice env input))
                  (snd (analyzeText env input))) = Inr None
           \<longrightarrow> isl (snd (analyzeEmotions env input))"
    by (simp add: analyzeEmotions_def emotionAnalysisFlow_result)
  show "\<forall>f. multimodalFusionPrompt env
               (fusionInput env (snd (analyzeFacial env input)) (snd (analyzeVoice env input))
                  (snd (analyzeText env input))) = Inr (Some f)
           \<longrightarrow> (if (\<exists>i. FacialEmotionCall i
                            \<in> set (fst (analyzeFacial env input) @ fst (analyzeVoice env input)
                                    @ fst (analyzeText env input))
                          \<and> facialEmotionPrompt env i = Inr None)
                    \<or> (\<exists>i. VoiceEmotionCall i
                            \<in> set (fst (analyzeFacial env input) @ fst (analyzeVoice env input)
                                    @ fst (analyzeText env input))
                          \<and> voiceEmotionPrompt env i = Inr None)
                    \<or> (\<exists>i. TextEmotionCall i
                            \<in> set (fst (analyzeFacial env input) @ fst (analyzeVoice env input)
                                    @ fst (analyzeText env input))
                          \<and> textEmotionPrompt env i = Inr None)
                 then snd (analyzeEmotions env input)
                        = Inl (ValidationError ''Schema validation failed'')
                 else (\<exists>r. snd (analyzeEmotions env input) = Inr r
                        \<and> fusedEmotions r =
                            \<lparr>FusedEmotions.primary = FusionResult.primary f,
                             FusedEmotions.confidence = FusionResult.confidence f,
                             FusedEmotions.emotions = FusionResult.emotions f,
                             FusedEmotions.arousal = FusionResult.arousal f,
                             FusedEmotions.valence = FusionResult.valence f,
                             FusedEmotions.distressLevel = FusionResult.distressLevel f\<rparr>
                        \<and> EmotionAnalysisOutput.recommendations r
                            = FusionResult.recommendations f
                        \<and> EmotionAnalysisOutput.avatarExpression r
                            = FusionResult.avatarExpression f
                        \<and> (valid_fused (fusedEmotions r) \<longleftrightarrow>
                             FusionResult.emotions f (FusionResult.primary f) \<noteq> None
                             \<and> 0 \<le> FusionResult.confidence f
                             \<and> FusionResult.confidence f \<le> 1)))"
    (is "\<forall>f. ?fusion = Inr (Some f) \<longrightarrow> (if ?nullCall then ?failed else ?returned f)")
  proof (intro allI impI)
    fix f
    assume answered: "?fusion = Inr (Some f)"
    show "if ?nullCall then ?failed else ?returned f"
    proof (cases "snd (analyzeFacial env input) = AssignedNull
                    \<or> snd (analyzeVoice env input) = AssignedNull
                    \<or> snd (analyzeText env input) = AssignedNull")
      case True
      then have n: "?nullCall" using null_result_iff_null_call [of env input] by blast
      from True answered have r: "?failed"
        by (simp add: analyzeEmotions_def emotionAnalysisFlow_result)
      show ?thesis by (rule iffD2 [OF if_P [OF n]]) (rule r)
    next
      case False
      then have n: "\<not> ?nullCall" using null_result_iff_null_call [of env input] by blast
      from False answered have r: "?returned f"
        by (simp add: analyzeEmotions_def emotionAnalysisFlow_result valid_fused_def)
      show ?thesis by (rule iffD2 [OF if_not_P [OF n]]) (rule r)
    qed
  qed
qed

text \<open>C4 amended: an answering and a failing fusion call at the input without modalities,
  and a text analyser that resolves with \<open>null\<close> before an answering fusion call.\<close>

theorem fusion_output_passed_through_witness:
  "fst (analyzeEmotions respondingEnv noModalityInput) =
     [MultimodalFusionCall \<lparr>facialData = None, voiceData = None, textData = None\<rparr>]
   \<and> multimodalFusionPrompt respondingEnv
        \<lparr>facialData = None, voiceData = None, textData = None\<rparr> = Inr (Some sampleFusion)
   \<and> (\<exists>r. snd (analyzeEmotions respondingEnv noModalityInput) = Inr r
        \<and> FusedEmotions.primary (fusedEmotions r) = ''sad''
        \<and> valid_fused (fusedEmotions r))
   \<and> fst (analyzeEmotions failingEnv noModalityInput) =
     [MultimodalFusionCall \<lparr>facialData = None, voiceData = None, textData = None\<rparr>]
   \<and> multimodalFusionPrompt failingEnv
        \<lparr>facialData = None, voiceData = None, textData = None\<rparr> = Inl (Error ''timeout'')
   \<and> snd (analyzeEmotions failingEnv noModalityInput) = Inl (Error ''timeout'')
   \<and> fst (analyzeEmotions nullTextEnv textOnlyInput) =
     [TextEmotionCall
        \<lparr>TextPromptInput.textContent = ''I feel sad'',
         TextPromptInput.conversationHistory = None\<rparr>,
      MultimodalFusionCall \<lparr>facialData = None, voiceData = None, textData = None\<rparr>]
   \<and> textEmotionPrompt nullTextEnv
        \<lparr>TextPromptInput.textContent = ''I feel sad'',
         TextPromptInput.conversationHistory = None\<rparr> = Inr None
   \<and> multimodalFusionPrompt nullTextEnv
        \<lparr>facialData = None, voiceData = None, textData = None\<rparr> = Inr (Some sampleFusion)
   \<and> snd (analyzeEmotions nullTextEnv textOnlyInput)
       = Inl (ValidationError ''Schema validation failed'')"
proof -
  have n: "EmotionAnalysisInput.imageData noModalityInput = None
         \<and> EmotionAnalysisInput.audioFeatures noModalityInput = None
         \<and> EmotionAnalysisInput.textContent noModalityInput = None"
    by (simp add: noModalityInput_def)
  have a: "multimodalFusionPrompt failingEnv i = Inl (Error ''timeout'')" for i
    by (simp add: failingEnv_def)
  have b: "multimodalFusionPrompt respondingEnv i = Inr (Some sampleFusion)" for i
    by (simp add: respondingEnv_def)
  have c: "multimodalFusionPrompt nullTextEnv i = Inr (Some sampleFusion)" for i
    by (simp add: nullTextEnv_def respondingEnv_def)
  have d: "textEmotionPrompt nullTextEnv i = Inr None" for i
    by (simp add: nullTextEnv_def)
  have v: "FusionResult.primary sampleFusion = ''sad''"
    "FusionResult.emotions sampleFusion (FusionResult.primary sampleFusion) \<noteq> None"
    "0 \<le> FusionResult.confidence sampleFusion" "FusionResult.confidence sampleFusion \<le> 1"
    by (simp_all add: sampleFusion_def)
  from fusion_output_passed_through [of respondingEnv noModalityInput] n b v
  have r: "fst (analyzeEmotions respondingEnv noModalityInput) =
       [MultimodalFusionCall \<lparr>facialData = None, voiceData = None, textData = None\<rparr>]
     \<and> (\<exists>r. snd (analyzeEmotions respondingEnv noModalityInput) = Inr r
        \<and> FusedEmotions.primary (fusedEmotions r) = ''sad''
        \<and> valid_fused (fusedEmotions r))"
    by (elim exE conjE) auto
  from fusion_output_passed_through [of failingEnv noModalityInput] n a
  have f: "fst (analyzeEmotions failingEnv noModalityInput) =
       [MultimodalFusionCall \<lparr>facialData = None, voiceData = None, textData = None\<rparr>]
     \<and> snd (analyzeEmotions failingEnv noModalityInput) = Inl (Error ''timeout'')"
    by (elim exE conjE) auto
  have t: "fst (analyzeEmotions nullTextEnv textOnlyInput) =
     [TextEmotionCall
        \<lparr>TextPromptInput.textContent = ''I feel sad'',
         TextPromptInput.conversationHistory = None\<rparr>]
     @ [MultimodalFusionCall \<lparr>facialData = None, voiceData = None, textData = None\<rparr>]"
    by (simp add: analyzeEmotions_def emotionAnalysisFlow_calls analyzeFacial_def
          analyzeVoice_def analyzeText_def Let_def fusionInput_def textOnlyInput_def
          truthy_string_def d)
  from fusion_output_passed_through [of nullTextEnv textOnlyInput]
  obtain calls fusionIn where
    h1: "fst (analyzeEmotions nullTextEnv textOnlyInput) = calls @ [MultimodalFusionCall fusionIn]"
    and h2: "\<forall>f. multimodalFusionPrompt nullTextEnv fusionIn = Inr (Some f)
           \<longrightarrow> (if (\<exists>i. FacialEmotionCall i \<in> set calls
                          \<and> facialEmotionPrompt nullTextEnv i = Inr None)
                    \<or> (\<exists>i. VoiceEmotionCall i \<in> set calls
                          \<and> voiceEmotionPrompt nullTextEnv i = Inr None)
                    \<or> (\<exists>i. TextEmotionCall i \<in> set calls
                          \<and> textEmotionPrompt nullTextEnv i = Inr None)
                 then snd (analyzeEmotions nullTextEnv textOnlyInput)
                        = Inl (ValidationError ''Schema validation failed'')
                 else (\<exists>r. snd (analyzeEmotions nullTextEnv textOnlyInput) = Inr r))"
    by (elim exE conjE) (rule that, assumption, auto split: if_splits)
  from h1 t have "calls =
     [TextEmotionCall
        \<lparr>TextPromptInput.textContent = ''I feel sad'',
         TextPromptInput.conversationHistory = None\<rparr>]"
    by simp
  then have "\<exists>i. TextEmotionCall i \<in> set calls \<and> textEmotionPrompt nullTextEnv i = Inr None"
    by (simp add: d)
  with h2 c have u: "snd (analyzeEmotions nullTextEnv textOnlyInput)
       = Inl (ValidationError ''Schema validation failed'')"
    by simp
  from r f a b c d t u show ?thesis by simp
qed

text \<open>
  C5.  When the emotion-analysis stage fails and the two uncaught calls resolve, the flow
  returns a merged output whose \<open>emotionAnalysis\<close> is the literal \<open>neutral\<close>, 0.5, 0.3 with no
  recommendations, whose avatar control is the default, and in which every field without an
  upstream value holds its hardcoded default: the contextual insights when context
  management failed (alliance 70), the safety assessment when the safety call gave no
  output (risk level \<open>low\<close>), the apology and the default interventions when the response
  call gave none.
\<close>

theorem emotion_failure_defaults:
  assumes "snd (analyzeEmotions env (emotionInput input)) = Inl e"
    and "safetyAssessmentPrompt env (safetyInput env input None) = Inr safetyOutput"
    and "guidance = snd (step3_contextualGuidance env input None (Some (healthAnalysisStub random)))"
    and "therapeuticResponsePrompt env (responseInput env input None guidance safetyOutput)
           = Inr responseOutput"
  shows "\<exists>r. snd (comprehensiveMitrFlow env now random input) = Inr r
     \<and> MitrOutput.emotionAnalysis r =
         \<lparr>EmotionSummary.primary = ''neutral'', EmotionSummary.confidence = 0.5,
          EmotionSummary.distressLevel = 0.3, EmotionSummary.recommendations = []\<rparr>
     \<and> avatarControl r =
         \<lparr>AvatarControl.expression = ''empathetic'', AvatarControl.intensity = 0.7,
          AvatarControl.duration = 5, AvatarControl.emotionalState = ''supportive''\<rparr>
     \<and> emotional (dataQuality (metadata r)) = 0.3
     \<and> MitrOutput.healthAnalysis r \<noteq> None
     \<and> ResponsePromptInput.emotionAnalysis (responseInput env input None guidance safetyOutput)
         = ''No emotion analysis available''
     \<and> (guidance = None \<longrightarrow>
          contextualInsights r =
            \<lparr>ContextualInsights.therapeuticIntent = ''emotional_support'',
             ContextualInsights.urgencyLevel = ''low'',
             ContextualInsights.sessionPhase = ''exploration'',
             ContextualInsights.therapeuticAlliance = 70\<rparr>
          \<and> confidenceScore (metadata r) = 0.5)
     \<and> (safetyOutput = None \<longrightarrow>
          MitrOutput.safetyAssessment r =
            \<lparr>SafetyAssessment.riskLevel = ''low'', SafetyAssessment.concerns = [],
             SafetyAssessment.actions = [], SafetyAssessment.followUp = False\<rparr>)
     \<and> (responseOutput = None \<longrightarrow>
          MitrOutput.response r =
            ''I apologize, but I encountered an issue generating a response. Please try again.''
          \<and> MitrOutput.interventions r =
            \<lparr>Interventions.immediate =
               [''Take a deep breath'', ''Ground yourself in the present moment''],
             session = [''Explore your feelings'', ''Practice mindfulness''],
             Interventions.longTerm =
               [''Develop coping strategies'', ''Build emotional resilience'']\<rparr>)"
proof -
  from assms(1) have s1: "snd (step1_emotionAnalysis env input) = None"
    by (simp add: step1_emotionAnalysis_def case_prod_beta)
  have run: "snd (comprehensiveMitrFlow env now random input) =
      Inr (compileResult now None (Some (healthAnalysisStub random)) guidance safetyOutput
             responseOutput)"
    using assms(2,4) by (simp add: comprehensiveMitrFlow_result s1 assms(3) [symmetric])
  show ?thesis
    unfolding run
    by (simp add: compileResult_def js_or_simps responseInput_def)
qed

text \<open>C5 where the analysers and the context stage time out and both uncaught calls
  resolve without output.\<close>

theorem emotion_failure_defaults_witness:
  "snd (analyzeEmotions degradedEnv (emotionInput sampleInput)) = Inl (Error ''timeout'')
   \<and> safetyAssessmentPrompt degradedEnv (safetyInput degradedEnv sampleInput None) = Inr None
   \<and> snd (step3_contextualGuidance degradedEnv sampleInput None (Some (healthAnalysisStub 0)))
       = None
   \<and> therapeuticResponsePrompt degradedEnv (responseInput degradedEnv sampleInput None None None)
       = Inr None
   \<and> (\<exists>r. snd (comprehensiveMitrFlow degradedEnv ''now'' 0 sampleInput) = Inr r
        \<and> MitrOutput.emotionAnalysis r =
            \<lparr>EmotionSummary.primary = ''neutral'', EmotionSummary.confidence = 0.5,
             EmotionSummary.distressLevel = 0.3, EmotionSummary.recommendations = []\<rparr>
        \<and> MitrOutput.safetyAssessment r =
            \<lparr>SafetyAssessment.riskLevel = ''low'', SafetyAssessment.concerns = [],
             SafetyAssessment.actions = [], SafetyAssessment.followUp = False\<rparr>
        \<and> ContextualInsights.therapeuticAlliance (contextualInsights r) = 70
        \<and> MitrOutput.response r =
            ''I apologize, but I encountered an issue generating a response. Please try again.'')"
proof -
  have a: "snd (analyzeEmotions degradedEnv (emotionInput sampleInput)) = Inl (Error ''timeout'')"
    by (simp add: analyzeEmotions_def emotionAnalysisFlow_result degradedEnv_def failingEnv_def)
  have b: "safetyAssessmentPrompt degradedEnv (safetyInput degradedEnv sampleInput None) = Inr None"
    by (simp add: degradedEnv_def)
  have c: "None = snd (step3_contextualGuidance degradedEnv sampleInput None
                         (Some (healthAnalysisStub 0)))"
    by (simp add: step3_contextualGuidance_def case_prod_beta manageContext_def
          contextManagementFlow_def Let_def degradedEnv_def failingEnv_def)
  have d: "therapeuticResponsePrompt degradedEnv
             (responseInput degradedEnv sampleInput None None None) = Inr None"
    by (simp add: degradedEnv_def)
  from emotion_failure_defaults [OF a b c d, of "''now''"] c [symmetric] a b d
  show ?thesis by auto
qed

text \<open>
  C6.  \<open>manageContext\<close> returns an error whenever the intent-classification call or the
  context-analysis call throws or resolves without output.  When it does so inside the
  comprehensive flow, the flow goes on with \<open>contextualGuidance = null\<close>: the response prompt
  receives the text \<open>No contextual guidance available\<close>, and the merge runs on absent guidance.
\<close>

theorem manageContext_fails_loudly:
  "(isl (intentClassificationPrompt env
           \<lparr>IntentPromptInput.message = currentMessage cm,
            conversationContext =
              Some (join newline
                      (map turn_line
                         (slice_last 5 (ContextManagementInput.conversationHistory cm))))\<rparr>)
      \<or> intentClassificationPrompt env
           \<lparr>IntentPromptInput.message = currentMessage cm,
            conversationContext =
              Some (join newline
                      (map turn_line
                         (slice_last 5 (ContextManagementInput.conversationHistory cm))))\<rparr>
          = Inr None
      \<or> isl (contextAnalysisPrompt env cm)
      \<or> contextAnalysisPrompt env cm = Inr None
    \<longrightarrow> isl (snd (manageContext env cm)))
   \<and> (isl (snd (manageContext env
                  (contextInput input (snd (step1_emotionAnalysis env input))
                     (Some (healthAnalysisStub random)))))
    \<longrightarrow> snd (step3_contextualGuidance env input (snd (step1_emotionAnalysis env input))
               (Some (healthAnalysisStub random))) = None
        \<and> (\<forall>so. contextualGuidance
                   (responseInput env input (snd (step1_emotionAnalysis env input)) None so)
                 = ''No contextual guidance available'')
        \<and> response_inputs (fst (comprehensiveMitrFlow env now random input)) =
            (case safetyAssessmentPrompt env
                    (safetyInput env input (snd (step1_emotionAnalysis env input))) of
               Inl e \<Rightarrow> []
             | Inr so \<Rightarrow>
                 [responseInput env input (snd (step1_emotionAnalysis env input)) None so])
        \<and> snd (comprehensiveMitrFlow env now random input) =
            (case safetyAssessmentPrompt env
                    (safetyInput env input (snd (step1_emotionAnalysis env input))) of
               Inl e \<Rightarrow> Inl e
             | Inr so \<Rightarrow>
                 (case therapeuticResponsePrompt env
                         (responseInput env input (snd (step1_emotionAnalysis env input))
                            None so) of
                    Inl e \<Rightarrow> Inl e
                  | Inr ro \<Rightarrow>
                      Inr (compileResult now (snd (step1_emotionAnalysis env input))
                             (Some (healthAnalysisStub random)) None so ro))))"
proof (intro conjI impI)
  assume "isl (intentClassificationPrompt env
           \<lparr>IntentPromptInput.message = currentMessage cm,
            conversationContext =
              Some (join newline
                      (map turn_line
                         (slice_last 5 (ContextManagementInput.conversationHistory cm))))\<rparr>)
      \<or> intentClassificationPrompt env
           \<lparr>IntentPromptInput.message = currentMessage cm,
            conversationContext =
              Some (join newline
                      (map turn_line
                         (slice_last 5 (ContextManagementInput.conversationHistory cm))))\<rparr>
          = Inr None
      \<or> isl (contextAnalysisPrompt env cm)
      \<or> contextAnalysisPrompt env cm = Inr None"
  then show "isl (snd (manageContext env cm))"
    by (auto simp: manageContext_def contextManagementFlow_def Let_def isl_def
          split: sum.splits option.splits)
next
  assume f: "isl (snd (manageContext env
                  (contextInput input (snd (step1_emotionAnalysis env input))
                     (Some (healthAnalysisStub random)))))"
  then show g: "snd (step3_contextualGuidance env input (snd (step1_emotionAnalysis env input))
               (Some (healthAnalysisStub random))) = None"
    by (auto simp: step3_contextualGuidance_def case_prod_beta isl_def)
  show "\<forall>so. contextualGuidance
                   (responseInput env input (snd (step1_emotionAnalysis env input)) None so)
                 = ''No contextual guidance available''"
    by (simp add: responseInput_def)
  show "response_inputs (fst (comprehensiveMitrFlow env now random input)) =
            (case safetyAssessmentPrompt env
                    (safetyInput env input (snd (step1_emotionAnalysis env input))) of
               Inl e \<Rightarrow> []
             | Inr so \<Rightarrow>
                 [responseInput env input (snd (step1_emotionAnalysis env input)) None so])"
    by (simp add: comprehensiveMitrFlow_response_inputs g split: sum.splits)
  show "snd (comprehensiveMitrFlow env now random input) =
            (case safetyAssessmentPrompt env
                    (safetyInput env input (snd (step1_emotionAnalysis env input))) of
               Inl e \<Rightarrow> Inl e
             | Inr so \<Rightarrow>
                 (case therapeuticResponsePrompt env
                         (responseInput env input (snd (step1_emotionAnalysis env input))
                            None so) of
                    Inl e \<Rightarrow> Inl e
                  | Inr ro \<Rightarrow>
                      Inr (compileResult now (snd (step1_emotionAnalysis env input))
                             (Some (healthAnalysisStub random)) None so ro)))"
    by (simp add: comprehensiveMitrFlow_result g split: sum.splits)
qed

text \<open>C6 where the intent call times out.\<close>

theorem manageContext_fails_loudly_witness:
  "isl (intentClassificationPrompt degradedEnv
          \<lparr>IntentPromptInput.message = currentMessage sampleContextInput,
           conversationContext =
             Some (join newline
                     (map turn_line
                        (slice_last 5
                           (ContextManagementInput.conversationHistory sampleContextInput))))\<rparr>)
   \<and> isl (snd (manageContext degradedEnv sampleContextInput))
   \<and> isl (snd (manageContext degradedEnv
                  (contextInput sampleInput (snd (step1_emotionAnalysis degradedEnv sampleInput))
                     (Some (healthAnalysisStub 0)))))
   \<and> response_inputs (fst (comprehensiveMitrFlow degradedEnv ''now'' 0 sampleInput)) =
       [responseInput degradedEnv sampleInput None None None]
   \<and> contextualGuidance (responseInput degradedEnv sampleInput None None None)
       = ''No contextual guidance available''
   \<and> snd (comprehensiveMitrFlow degradedEnv ''now'' 0 sampleInput) =
       Inr (compileResult ''now'' None (Some (healthAnalysisStub 0)) None None None)"
proof -
  have i: "intentClassificationPrompt degradedEnv ii = Inl (Error ''timeout'')" for ii
    by (simp add: degradedEnv_def failingEnv_def)
  have s: "safetyAssessmentPrompt degradedEnv si = Inr None" for si
    by (simp add: degradedEnv_def)
  have t: "therapeuticResponsePrompt degradedEnv ri = Inr None" for ri
    by (simp add: degradedEnv_def)
  have a: "snd (step1_emotionAnalysis degradedEnv sampleInput) = None"
    by (simp add: step1_emotionAnalysis_def case_prod_beta analyzeEmotions_def
          emotionAnalysisFlow_result degradedEnv_def failingEnv_def)
  note w1 = manageContext_fails_loudly
              [where env = degradedEnv and cm = sampleContextInput and now = "''now''"
                 and random = 0 and input = sampleInput, THEN conjunct1]
  note w2 = manageContext_fails_loudly
              [where env = degradedEnv and cm = sampleContextInput and now = "''now''"
                 and random = 0 and input = sampleInput, THEN conjunct2]
  have h1: "isl (snd (manageContext degradedEnv sampleContextInput))"
    using w1 by (simp add: i)
  have h2: "isl (snd (manageContext degradedEnv
                  (contextInput sampleInput (snd (step1_emotionAnalysis degradedEnv sampleInput))
                     (Some (healthAnalysisStub 0)))))"
    by (simp add: manageContext_def contextManagementFlow_def Let_def i)
  from w2 h2 have h3:
    "response_inputs (fst (comprehensiveMitrFlow degradedEnv ''now'' 0 sampleInput)) =
       [responseInput degradedEnv sampleInput None None None]"
    "contextualGuidance (responseInput degradedEnv sampleInput None None None)
       = ''No contextual guidance available''"
    "snd (comprehensiveMitrFlow degradedEnv ''now'' 0 sampleInput) =
       Inr (compileResult ''now'' None (Some (healthAnalysisStub 0)) None None None)"
    by (simp_all add: a s t)
  from h1 h2 h3 show ?thesis by (simp add: i)
qed

text \<open>
  C7.  When \<open>manageContext\<close> succeeds, both calls have resolved with an output and the
  knowledge matcher has returned; the guidance has the classifier's output as
  \<open>therapeuticIntent\<close>, the matcher's entries (topic, content, category, score 0.8) as
  \<open>knowledgeBaseMatches\<close>, and every other field as the context-analysis call gave it.
\<close>

theorem manageContext_overrides:
  assumes "snd (manageContext env cm) = Inr g"
  shows "\<exists>intentOutput contextResult relevantKnowledge.
       intentClassificationPrompt env
         \<lparr>IntentPromptInput.message = currentMessage cm,
          conversationContext =
            Some (join newline
                    (map turn_line
                       (slice_last 5 (ContextManagementInput.conversationHistory cm))))\<rparr>
         = Inr (Some intentOutput)
     \<and> contextAnalysisPrompt env cm = Inr (Some contextResult)
     \<and> findRelevantKnowledge (toLowerCase env) (currentMessage cm)
           (Option.bind (emotionalContext cm) currentEmotion) = Inr relevantKnowledge
     \<and> ContextManagementOutput.therapeuticIntent g = intentOutput
     \<and> knowledgeBaseMatches g =
         map (\<lambda>item. \<lparr>KnowledgeMatch.topic = KnowledgeEntry.topic item,
                      KnowledgeMatch.content = KnowledgeEntry.content item,
                      KnowledgeMatch.relevanceScore = 0.8,
                      KnowledgeMatch.category = KnowledgeEntry.category item\<rparr>)
           relevantKnowledge
     \<and> relevantContext g = relevantContext contextResult
     \<and> responseStrategy g = responseStrategy contextResult
     \<and> contextualFactors g = contextualFactors contextResult
     \<and> adaptivePrompt g = adaptivePrompt contextResult"
  using assms
  by (auto simp: manageContext_def contextManagementFlow_def Let_def
      split: sum.splits option.splits)

text \<open>C7 where the context model proposes \<open>small_talk\<close> and the classifier answers
  \<open>depression_support\<close>.\<close>

theorem manageContext_overrides_witness:
  "snd (manageContext respondingEnv sampleContextInput) = Inr sampleManaged
   \<and> contextAnalysisPrompt respondingEnv sampleContextInput = Inr (Some sampleGuidance)
   \<and> TherapeuticIntent.primary (ContextManagementOutput.therapeuticIntent sampleGuidance)
       = ''small_talk''
   \<and> ContextManagementOutput.therapeuticIntent sampleManaged = sampleIntent
   \<and> map KnowledgeMatch.topic (knowledgeBaseMatches sampleManaged) = [''Depression Support'']
   \<and> contextualFactors sampleManaged = contextualFactors sampleGuidance
   \<and> (\<exists>intentOutput contextResult relevantKnowledge.
         intentClassificationPrompt respondingEnv
           \<lparr>IntentPromptInput.message = currentMessage sampleContextInput,
            conversationContext =
              Some (join newline
                      (map turn_line
                         (slice_last 5
                            (ContextManagementInput.conversationHistory sampleContextInput))))\<rparr>
           = Inr (Some intentOutput)
       \<and> contextAnalysisPrompt respondingEnv sampleContextInput = Inr (Some contextResult)
       \<and> ContextManagementOutput.therapeuticIntent sampleManaged = intentOutput
       \<and> relevantContext sampleManaged = relevantContext contextResult
       \<and> responseStrategy sampleManaged = responseStrategy contextResult
       \<and> contextualFactors sampleManaged = contextualFactors contextResult
       \<and> adaptivePrompt sampleManaged = adaptivePrompt contextResult)"
proof -
  have run: "snd (manageContext respondingEnv sampleContextInput) = Inr sampleManaged"
    by (rule manageContext_respondingEnv) (simp_all add: sampleContextInput_def)
  have c: "contextAnalysisPrompt respondingEnv sampleContextInput = Inr (Some sampleGuidance)"
    by (simp add: respondingEnv_def)
  have p: "TherapeuticIntent.primary (ContextManagementOutput.therapeuticIntent sampleGuidance)
       = ''small_talk''"
    "ContextManagementOutput.therapeuticIntent sampleManaged = sampleIntent"
    "map KnowledgeMatch.topic (knowledgeBaseMatches sampleManaged) = [''Depression Support'']"
    "contextualFactors sampleManaged = contextualFactors sampleGuidance"
    by (simp_all add: sampleManaged_def sampleGuidance_def)
  from manageContext_overrides [OF run] run c p show ?thesis by blast
qed

text \<open>
  C8.  The knowledge matcher does not return for every emotion label: for a label that
  names a member inherited from \<open>Object.prototype\<close>, here \<open>constructor\<close>, the lookup in
  \<open>emotionKeywords\<close> yields a function, \<open>|| []\<close> keeps it, and \<open>emotionKeys.some\<close> throws.
  (For every other label \<open>findRelevantKnowledge_cases\<close> and \<open>findRelevantKnowledge_result\<close>
  give what the claim says: at most five entries of the table, none twice.)
\<close>

theorem findRelevantKnowledge_inherited_label_throws:
  "findRelevantKnowledge lower ''hello'' (Some ''constructor'') =
     Inl (TypeError ''emotionKeys.some is not a function'')"
  by (simp add: findRelevantKnowledge_cases objectPrototypeMembers_def)

text \<open>
  C9, as stated, fails on the code: the wellness score of the stub is drawn with
  \<open>Math.random()\<close>, so two runs on one input return different health summaries.
\<close>

theorem health_summary_varies_counterexample:
  "healthSummaryOf (comprehensiveMitrFlow degradedEnv ''now'' 0 sampleInput) =
     Some \<lparr>HealthSummary.wellnessScore = 75, HealthSummary.stressLevel = 35,
            HealthSummary.alerts = [],
            HealthSummary.recommendations = [''Take a deep breath'', ''Stay hydrated'']\<rparr>
   \<and> healthSummaryOf (comprehensiveMitrFlow degradedEnv ''now'' (1/2) sampleInput) =
     Some \<lparr>HealthSummary.wellnessScore = 82, HealthSummary.stressLevel = 35,
            HealthSummary.alerts = [],
            HealthSummary.recommendations = [''Take a deep breath'', ''Stay hydrated'']\<rparr>"
  by (simp add: healthSummaryOf_def comprehensiveMitrFlow_degradedEnv_sample
        healthSummary_compileResult)

text \<open>
  C9, amended.  The comprehensive flow never calls the wearables prompt.  Whatever the
  input, the health summary it returns has stress level 35, no alerts, the two fixed
  recommendations, and the wellness score 75 plus the floor of 15 times the run's random
  draw: a whole number from 75 to 89 that may differ between two runs.
\<close>

theorem health_summary_stub:
  "wearables_inputs (fst (comprehensiveMitrFlow env now random input)) = []
   \<and> (snd (comprehensiveMitrFlow env now random input) = Inr r \<longrightarrow>
        MitrOutput.healthAnalysis r =
          Some \<lparr>HealthSummary.wellnessScore = 75 + of_int \<lfloor>random * 15\<rfloor>,
                 HealthSummary.stressLevel = 35,
                 HealthSummary.alerts = [],
                 HealthSummary.recommendations = [''Take a deep breath'', ''Stay hydrated'']\<rparr>)
   \<and> (0 \<le> random \<and> random < 1 \<longrightarrow> 0 \<le> \<lfloor>random * 15\<rfloor> \<and> \<lfloor>random * 15\<rfloor> \<le> 14)"
proof -
  have "0 \<le> \<lfloor>random * 15\<rfloor> \<and> \<lfloor>random * 15\<rfloor> \<le> 14" if "0 \<le> random" "random < 1"
  proof -
    from that have "0 \<le> random * 15" "random * 15 < 15" by simp_all
    then show ?thesis by (simp add: floor_less_iff le_floor_iff)
  qed
  then show ?thesis
    by (auto simp: comprehensiveMitrFlow_wearables_inputs comprehensiveMitrFlow_result
          healthSummary_compileResult split: sum.splits)
qed

text \<open>C9 amended, at a run whose random draw is one half.\<close>

theorem health_summary_stub_witness:
  "snd (comprehensiveMitrFlow degradedEnv ''now'' (1/2) sampleInput) =
     Inr (compileResult ''now'' None (Some (healthAnalysisStub (1/2))) None None None)
   \<and> (0::real) \<le> 1/2 \<and> (1/2::real) < 1
   \<and> wearables_inputs (fst (comprehensiveMitrFlow degradedEnv ''now'' (1/2) sampleInput)) = []
   \<and> MitrOutput.healthAnalysis
        (compileResult ''now'' None (Some (healthAnalysisStub (1/2))) None None None) =
       Some \<lparr>HealthSummary.wellnessScore = 82, HealthSummary.stressLevel = 35,
              HealthSummary.alerts = [],
              HealthSummary.recommendations = [''Take a deep breath'', ''Stay hydrated'']\<rparr>
   \<and> \<lfloor>(1/2::real) * 15\<rfloor> = 7"
proof -
  note run = comprehensiveMitrFlow_degradedEnv_sample [of "''now''" "1/2"]
  from run health_summary_stub
         [where env = degradedEnv and now = "''now''" and random = "1/2" and input = sampleInput
            and r = "compileResult ''now'' None (Some (healthAnalysisStub (1/2))) None None None"]
  show ?thesis by simp
qed

text \<open>
  C10, as stated, fails on the code: not every default of the merge step is substituted
  with \<open>||\<close>.  The avatar control is chosen by \<open>?:\<close> on the presence of the upstream avatar
  expression, so in the run below the upstream intensity 0, a falsy value, is kept; the
  default intensity 0.7 appears only when the emotion analysis is absent.
\<close>

theorem avatar_intensity_kept_counterexample:
  "snd (step1_emotionAnalysis respondingEnv sampleInput) = Some sampleAnalysis
   \<and> AvatarExpression.intensity (EmotionAnalysisOutput.avatarExpression sampleAnalysis) = 0
   \<and> snd (comprehensiveMitrFlow respondingEnv ''now'' 0 sampleInput) = Inr sampleMerged
   \<and> AvatarControl.intensity (avatarControl sampleMerged) = 0
   \<and> AvatarControl.intensity
        (avatarControl
           (compileResult ''now'' None (Some (healthAnalysisStub 0)) (Some sampleManaged)
              (Some sampleSafety) (Some sampleResponse))) = 0.7"
proof -
  have "AvatarExpression.intensity (EmotionAnalysisOutput.avatarExpression sampleAnalysis) = 0"
    by (simp add: sampleAnalysis_def)
  moreover have "AvatarControl.intensity (avatarControl sampleMerged) = 0"
    by (simp add: sampleMerged_def avatarControl_presence_test sampleAnalysis_def)
  moreover have "AvatarControl.intensity
        (avatarControl
           (compileResult ''now'' None (Some (healthAnalysisStub 0)) (Some sampleManaged)
              (Some sampleSafety) (Some sampleResponse))) = 0.7"
    by (simp add: avatarControl_presence_test)
  ultimately show ?thesis
    using step1_respondingEnv_sample comprehensiveMitrFlow_respondingEnv_sample by blast
qed

text \<open>
  C10, amended.  The object a successful run returns is the merge of the stage results,
  and the merge is this, field by field.  The response text, the emotion summary's primary
  label, confidence and distress level, the four contextual insights, the risk level and
  both operands of the confidence score take the upstream value when it is present and
  truthy, and the default when it is missing or falsy: confidence 0 becomes 0.5, distress
  level 0 becomes 0.3, an empty response text becomes the apology.  \<open>followUp\<close> is the
  upstream flag, \<open>false\<close> when the safety result is absent as when it says \<open>false\<close>.  The
  lists and the interventions are replaced only when missing.  The avatar control, the
  health summary and the data-quality scores are chosen by the presence of the upstream
  object: a present avatar expression is copied as it is.
\<close>

theorem merge_defaults_by_field:
  "(snd (comprehensiveMitrFlow env now random input) = Inr r \<longrightarrow>
      (\<exists>ea' g' so' ro'.
         r = compileResult now ea' (Some (healthAnalysisStub random)) g' so' ro'))
   \<and> MitrOutput.response (compileResult t ea h g so ro) =
       (case ro of
          None \<Rightarrow> ''I apologize, but I encountered an issue generating a response. Please try again.''
        | Some rr \<Rightarrow>
            if ResponseResult.response rr = [] then ''I apologize, but I encountered an issue generating a response. Please try again.'' else ResponseResult.response rr)
   \<and> EmotionSummary.confidence (MitrOutput.emotionAnalysis (compileResult t ea h g so ro)) =
       (case ea of
          None \<Rightarrow> 0.5
        | Some a \<Rightarrow>
            if FusedEmotions.confidence (fusedEmotions a) = 0 then 0.5
            else FusedEmotions.confidence (fusedEmotions a))
   \<and> EmotionSummary.distressLevel (MitrOutput.emotionAnalysis (compileResult t ea h g so ro)) =
       (case ea of
          None \<Rightarrow> 0.3
        | Some a \<Rightarrow>
            if FusedEmotions.distressLevel (fusedEmotions a) = 0 then 0.3
            else FusedEmotions.distressLevel (fusedEmotions a))
   \<and> SafetyAssessment.followUp (MitrOutput.safetyAssessment (compileResult t ea h g so ro)) =
       (case so of None \<Rightarrow> False | Some s \<Rightarrow> SafetyResult.followUp s)
   \<and> EmotionSummary.primary (MitrOutput.emotionAnalysis (compileResult t ea h g so ro)) =
       (case ea of
          None \<Rightarrow> ''neutral''
        | Some a \<Rightarrow>
            if FusedEmotions.primary (fusedEmotions a) = [] then ''neutral''
            else FusedEmotions.primary (fusedEmotions a))
   \<and> EmotionSummary.recommendations
        (MitrOutput.emotionAnalysis (compileResult t ea h g so ro)) =
       (case ea of None \<Rightarrow> [] | Some a \<Rightarrow> EmotionAnalysisOutput.recommendations a)
   \<and> ContextualInsights.therapeuticIntent
        (contextualInsights (compileResult t ea h g so ro)) =
       (case g of
          None \<Rightarrow> ''emotional_support''
        | Some c \<Rightarrow>
            if TherapeuticIntent.primary (ContextManagementOutput.therapeuticIntent c) = []
            then ''emotional_support''
            else TherapeuticIntent.primary (ContextManagementOutput.therapeuticIntent c))
   \<and> ContextualInsights.urgencyLevel (contextualInsights (compileResult t ea h g so ro)) =
       (case g of
          None \<Rightarrow> ''low''
        | Some c \<Rightarrow>
            if ContextualFactors.urgencyLevel (contextualFactors c) = [] then ''low''
            else ContextualFactors.urgencyLevel (contextualFactors c))
   \<and> ContextualInsights.sessionPhase (contextualInsights (compileResult t ea h g so ro)) =
       (case g of
          None \<Rightarrow> ''exploration''
        | Some c \<Rightarrow>
            if ContextualFactors.sessionPhase (contextualFactors c) = [] then ''exploration''
            else ContextualFactors.sessionPhase (contextualFactors c))
   \<and> ContextualInsights.therapeuticAlliance
        (contextualInsights (compileResult t ea h g so ro)) =
       (case g of
          None \<Rightarrow> 70
        | Some c \<Rightarrow>
            if ContextualFactors.therapeuticAlliance (contextualFactors c) = 0 then 70
            else ContextualFactors.therapeuticAlliance (contextualFactors c))
   \<and> MitrOutput.interventions (compileResult t ea h g so ro) =
       (case ro of
          None \<Rightarrow>
            \<lparr>Interventions.immediate =
               [''Take a deep breath'', ''Ground yourself in the present moment''],
             session = [''Explore your feelings'', ''Practice mindfulness''],
             Interventions.longTerm =
               [''Develop coping strategies'', ''Build emotional resilience'']\<rparr>
        | Some rr \<Rightarrow> ResponseResult.interventions rr)
   \<and> SafetyAssessment.riskLevel (MitrOutput.safetyAssessment (compileResult t ea h g so ro)) =
       (case so of
          None \<Rightarrow> ''low''
        | Some s \<Rightarrow>
            if SafetyResult.riskLevel s = [] then ''low'' else SafetyResult.riskLevel s)
   \<and> SafetyAssessment.concerns (MitrOutput.safetyAssessment (compileResult t ea h g so ro)) =
       (case so of None \<Rightarrow> [] | Some s \<Rightarrow> SafetyResult.concerns s)
   \<and> SafetyAssessment.actions (MitrOutput.safetyAssessment (compileResult t ea h g so ro)) =
       (case so of None \<Rightarrow> [] | Some s \<Rightarrow> SafetyResult.actions s)
   \<and> confidenceScore (metadata (compileResult t ea h g so ro)) =
       ((case ea of
           None \<Rightarrow> 0.5
         | Some a \<Rightarrow>
             if FusedEmotions.confidence (fusedEmotions a) = 0 then 0.5
             else FusedEmotions.confidence (fusedEmotions a))
        + (case g of
             None \<Rightarrow> 0.5
           | Some c \<Rightarrow>
               if TherapeuticIntent.confidence (ContextManagementOutput.therapeuticIntent c) = 0
               then 0.5
               else TherapeuticIntent.confidence
                      (ContextManagementOutput.therapeuticIntent c))) / 2
   \<and> analysisTimestamp (metadata (compileResult t ea h g so ro)) = t
   \<and> avatarControl (compileResult t ea h g so ro) =
       (case ea of
          None \<Rightarrow>
            \<lparr>AvatarControl.expression = ''empathetic'', AvatarControl.intensity = 0.7,
             AvatarControl.duration = 5, AvatarControl.emotionalState = ''supportive''\<rparr>
        | Some a \<Rightarrow>
            \<lparr>AvatarControl.expression =
               AvatarExpression.expression (EmotionAnalysisOutput.avatarExpression a),
             AvatarControl.intensity =
               AvatarExpression.intensity (EmotionAnalysisOutput.avatarExpression a),
             AvatarControl.duration =
               AvatarExpression.duration (EmotionAnalysisOutput.avatarExpression a),
             AvatarControl.emotionalState = ''supportive''\<rparr>)
   \<and> dataQuality (metadata (compileResult t ea h g so ro)) =
       \<lparr>emotional = (if ea = None then 0.3 else 0.8),
        health = (if h = None then 0 else 0.9),
        contextual = (if g = None then 0.5 else 0.8)\<rparr>
   \<and> MitrOutput.healthAnalysis (compileResult t ea h g so ro) =
       (case h of
          None \<Rightarrow> None
        | Some w \<Rightarrow>
            Some \<lparr>HealthSummary.wellnessScore = score (overallWellness w),
                   HealthSummary.stressLevel = MentalHealth.stressLevel (mentalHealth w),
                   HealthSummary.alerts =
                     map (\<lambda>alert.
                            \<lparr>HealthAlert.type = WearableAlert.type alert,
                             HealthAlert.severity = WearableAlert.severity alert,
                             HealthAlert.message = WearableAlert.message alert\<rparr>)
                       (WearablesAnalysisOutput.alerts w),
                   HealthSummary.recommendations =
                     HealthRecommendations.immediate
                       (WearablesAnalysisOutput.recommendations w)\<rparr>)"
proof -
  have link: "snd (comprehensiveMitrFlow env now random input) = Inr r \<longrightarrow>
      (\<exists>ea' g' so' ro'.
         r = compileResult now ea' (Some (healthAnalysisStub random)) g' so' ro')"
    by (auto simp: comprehensiveMitrFlow_result split: sum.splits)
  show ?thesis
    apply (intro conjI)
                       apply (rule link)
                      apply (simp add: compileResult_def js_or_def truthy_string_def
                               split: option.splits)
                     apply (simp add: compileResult_def js_or_def truthy_number_def
                              split: option.splits)
                    apply (simp add: compileResult_def js_or_def truthy_number_def
                             split: option.splits)
                   apply (simp add: compileResult_def js_or_def truthy_boolean_def
                            split: option.splits)
                  apply (simp add: compileResult_def js_or_def truthy_string_def
                           split: option.splits)
                 apply (simp add: compileResult_def js_or_def truthy_object_def
                          split: option.splits)
                apply (simp add: compileResult_def js_or_def truthy_string_def
                         split: option.splits)
               apply (simp add: compileResult_def js_or_def truthy_string_def
                        split: option.splits)
              apply (simp add: compileResult_def js_or_def truthy_string_def
                       split: option.splits)
             apply (simp add: compileResult_def js_or_def truthy_number_def
                      split: option.splits)
            apply (simp add: compileResult_def js_or_def truthy_object_def
                     split: option.splits)
           apply (simp add: compileResult_def js_or_def truthy_string_def
                    split: option.splits)
          apply (simp add: compileResult_def js_or_def truthy_object_def
                   split: option.splits)
         apply (simp add: compileResult_def js_or_def truthy_object_def
                  split: option.splits)
        apply (simp add: compileResult_def js_or_def truthy_number_def
                 split: option.splits)
       apply (simp add: compileResult_def)
      apply (simp add: compileResult_def split: option.splits)
     apply (simp add: compileResult_def)
    apply (simp add: compileResult_def split: option.splits)
    done
qed

text \<open>C10 amended, where the fusion call reports confidence 0 and distress level 0, the
  safety call \<open>followUp = false\<close> and the response call an empty text.\<close>

theorem merge_defaults_by_field_witness:
  "snd (comprehensiveMitrFlow respondingEnv ''now'' 0 sampleInput) = Inr sampleMerged
   \<and> (\<exists>ea' g' so' ro'.
         sampleMerged = compileResult ''now'' ea' (Some (healthAnalysisStub 0)) g' so' ro')
   \<and> MitrOutput.response sampleMerged = ''I apologize, but I encountered an issue generating a response. Please try again.''
   \<and> EmotionSummary.confidence (MitrOutput.emotionAnalysis sampleMerged) = 0.5
   \<and> EmotionSummary.distressLevel (MitrOutput.emotionAnalysis sampleMerged) = 0.3
   \<and> SafetyAssessment.followUp (MitrOutput.safetyAssessment sampleMerged) = False"
proof -
  note m = merge_defaults_by_field
             [where env = respondingEnv and now = "''now''" and random = 0
                and input = sampleInput and r = sampleMerged
                and t = "''now''" and ea = "Some sampleAnalysis"
                and h = "Some (healthAnalysisStub 0)" and g = "Some sampleManaged"
                and so = "Some sampleSafety" and ro = "Some sampleResponse",
              folded sampleMerged_def]
  note run = comprehensiveMitrFlow_respondingEnv_sample
  from m [THEN conjunct1] run
  have l: "\<exists>ea' g' so' ro'.
         sampleMerged = compileResult ''now'' ea' (Some (healthAnalysisStub 0)) g' so' ro'"
    by blast
  have a: "MitrOutput.response sampleMerged = ''I apologize, but I encountered an issue generating a response. Please try again.''"
    using m [THEN conjunct2, THEN conjunct1] by (simp add: sampleResponse_def)
  have b: "EmotionSummary.confidence (MitrOutput.emotionAnalysis sampleMerged) = 0.5"
    using m [THEN conjunct2, THEN conjunct2, THEN conjunct1] by (simp add: sampleAnalysis_def)
  have c: "EmotionSummary.distressLevel (MitrOutput.emotionAnalysis sampleMerged) = 0.3"
    using m [THEN conjunct2, THEN conjunct2, THEN conjunct2, THEN conjunct1]
    by (simp add: sampleAnalysis_def)
  have d: "SafetyAssessment.followUp (MitrOutput.safetyAssessment sampleMerged) = False"
    using m [THEN conjunct2, THEN conjunct2, THEN conjunct2, THEN conjunct2, THEN conjunct1]
    by (simp add: sampleSafety_def)
  from run l a b c d show ?thesis by blast
qed

end
